theory Spec2Isabelle
  imports Complex_Main
begin

section \<open>The warp distribution table \<open>src/python/core/warp/distr.py\<close>\<close>

text \<open>
  The module builds, at import time, the list \<open>DISTRIBUTIONS\<close> of tuples
  \<open>(name, domain, (sample, density), settings)\<close>. The model follows the module
  statement by statement: Python values and callables, the store holding the settings
  dictionaries and their \<open>parameters\<close> lists (they are shared by reference), the
  table itself, the two image-backed builders, and the module's execution as a whole.

  Floating-point numbers are modelled by the reals; \<open>np.exp\<close>, \<open>np.log\<close>,
  \<open>np.sin\<close>, \<open>np.cos\<close> and \<open>np.pi\<close> by their real counterparts.
\<close>

subsection \<open>Python values, exceptions and callables\<close>

datatype error = TypeError | AttributeError | IndexError | KeyError | ValueError | IOError string

datatype pyval = Num real | Arr1 "real list" | Arr2 "real list list" | Tuple "pyval list"

text \<open>Sequencing of two computations that may raise: the first exception propagates.\<close>

definition and_then :: "error + 'a \<Rightarrow> ('a \<Rightarrow> error + 'b) \<Rightarrow> error + 'b" where
  "and_then r f = (case r of Inl e \<Rightarrow> Inl e | Inr x \<Rightarrow> f x)"

text \<open>
  A callable: its positional parameter names, whether it ends in \<open>*args\<close>, and its body.
  A call with a number of positional arguments that the signature does not accept raises
  \<open>TypeError\<close> before the body runs.
\<close>

record pyfun =
  formals :: "string list"
  varargs :: bool
  body :: "pyval list \<Rightarrow> error + pyval"

definition accepts :: "pyfun \<Rightarrow> nat \<Rightarrow> bool" where
  "accepts f n = (if varargs f then length (formals f) \<le> n else n = length (formals f))"

definition call :: "pyfun \<Rightarrow> pyval list \<Rightarrow> error + pyval" where
  "call f args = (if accepts f (length args) then body f args else Inl TypeError)"

text \<open>Elementwise arithmetic on a float or an array; a tuple is not a number.\<close>

fun map_num :: "(real \<Rightarrow> real) \<Rightarrow> pyval \<Rightarrow> error + pyval" where
  "map_num f (Num x) = Inr (Num (f x))"
| "map_num f (Arr1 xs) = Inr (Arr1 (map f xs))"
| "map_num f (Arr2 rows) = Inr (Arr2 (map (map f) rows))"
| "map_num f (Tuple vs) = Inl TypeError"

text \<open>\<open>x.shape[0]\<close>\<close>

fun shape0 :: "pyval \<Rightarrow> error + nat" where
  "shape0 (Arr1 xs) = Inr (length xs)"
| "shape0 (Arr2 rows) = Inr (length rows)"
| "shape0 (Num x) = Inl AttributeError"
| "shape0 (Tuple vs) = Inl AttributeError"

text \<open>\<open>x[0]\<close>\<close>

fun getitem0 :: "pyval \<Rightarrow> error + pyval" where
  "getitem0 (Tuple []) = Inl IndexError"
| "getitem0 (Tuple (v # vs)) = Inr v"
| "getitem0 (Arr1 []) = Inl IndexError"
| "getitem0 (Arr1 (x # xs)) = Inr (Num x)"
| "getitem0 (Arr2 []) = Inl IndexError"
| "getitem0 (Arr2 (r # rs)) = Inr (Arr1 r)"
| "getitem0 (Num x) = Inl TypeError"

text \<open>\<open>np.ones(n)\<close>\<close>

definition np_ones :: "nat \<Rightarrow> pyval" where
  "np_ones n = Arr1 (replicate n 1)"

text \<open>\<open>np.array([a, b, c])\<close> of three scalars\<close>

fun np_array3 :: "pyval \<Rightarrow> pyval \<Rightarrow> pyval \<Rightarrow> error + real list" where
  "np_array3 (Num a) (Num b) (Num c) = Inr [a, b, c]"
| "np_array3 a b c = Inl ValueError"

text \<open>\<open>np.tile(v, [n, 1])\<close> of a vector \<open>v\<close>: \<open>n\<close> rows, each a copy of \<open>v\<close>\<close>

definition np_tile :: "real list \<Rightarrow> nat \<Rightarrow> pyval" where
  "np_tile v n = Arr2 (replicate n v)"

definition deg2rad :: "pyval \<Rightarrow> error + pyval" where
  "deg2rad value = map_num (\<lambda>v. v * pi / 180) value"

subsection \<open>The store: settings dictionaries and parameter lists\<close>

text \<open>
  A parameter is the tuple \<open>(label, [min, max, default])\<close>. A dictionary maps its keys, in
  insertion order, to an integer or to a reference to a list object. Every list display
  and every \<open>dict(...)\<close> call of the module allocates a fresh object.
\<close>

type_synonym addr = nat

type_synonym param = "string \<times> real list"

datatype val = IntV int | Ref addr

datatype obj = DictObj "(string \<times> val) list" | ListObj "param list"

text \<open>
  The store is the list of the objects allocated so far; an address is a position in it.
\<close>

type_synonym store = "obj list"

definition empty_store :: store where
  "empty_store = []"

definition lookup :: "store \<Rightarrow> addr \<Rightarrow> obj option" where
  "lookup h a = (if a < length h then Some (h ! a) else None)"

definition alloc :: "obj \<Rightarrow> store \<Rightarrow> addr \<times> store" where
  "alloc ob h = (length h, h @ [ob])"

primrec dict_put :: "string \<Rightarrow> val \<Rightarrow> (string \<times> val) list \<Rightarrow> (string \<times> val) list" where
  "dict_put k v [] = [(k, v)]"
| "dict_put k v (kv # kvs) = (if fst kv = k then (k, v) # kvs else kv # dict_put k v kvs)"

definition dict_items :: "store \<Rightarrow> addr \<Rightarrow> (string \<times> val) list option" where
  "dict_items h a =
     (case lookup h a of Some (DictObj kvs) \<Rightarrow> Some kvs | Some (ListObj ps) \<Rightarrow> None | None \<Rightarrow> None)"

text \<open>The expressions the table uses for the settings of an entry.\<close>

datatype template = DEFAULT_SETTINGS | DEFAULT_SETTINGS_3

datatype lit = IntLit int | ListLit "param list"

datatype settings_expr = Global template | DictCall template "(string \<times> lit) list"

text \<open>
  The dictionary display \<open>{'sample_dim': d, 'ires': 10, 'res': 101, 'parameters': []}\<close>:
  the empty list is allocated, then the dictionary that refers to it.
\<close>

definition new_settings :: "int \<Rightarrow> store \<Rightarrow> addr \<times> store" where
  "new_settings d h =
     (case alloc (ListObj []) h of (l, h1) \<Rightarrow>
        alloc (DictObj [(''sample_dim'', IntV d), (''ires'', IntV 10), (''res'', IntV 101),
                        (''parameters'', Ref l)]) h1)"

fun eval_lit :: "lit \<Rightarrow> store \<Rightarrow> val \<times> store" where
  "eval_lit (IntLit n) h = (IntV n, h)"
| "eval_lit (ListLit ps) h = (case alloc (ListObj ps) h of (l, h1) \<Rightarrow> (Ref l, h1))"

fun eval_kwargs :: "(string \<times> lit) list \<Rightarrow> store \<Rightarrow> (string \<times> val) list \<times> store" where
  "eval_kwargs [] h = ([], h)"
| "eval_kwargs ((k, e) # kes) h =
     (case eval_lit e h of (v, h1) \<Rightarrow>
        (case eval_kwargs kes h1 of (kvs, h2) \<Rightarrow> ((k, v) # kvs, h2)))"

text \<open>
  A global name evaluates to the object it is bound to: no copy. \<open>dict(base, k=v, ...)\<close>
  allocates a new dictionary with the items of \<open>base\<close>, then the keyword arguments;
  the values are copied as they are, so a reference stays a reference to the same list.
  The module only ever passes one of its two global dictionaries as \<open>base\<close>; the
  last branch (a base that is no dictionary) is there for totality.
\<close>

fun eval_settings :: "(template \<Rightarrow> addr) \<Rightarrow> settings_expr \<Rightarrow> store \<Rightarrow> addr \<times> store" where
  "eval_settings g (Global t) h = (g t, h)"
| "eval_settings g (DictCall t kes) h =
     (case eval_kwargs kes h of (kvs, h1) \<Rightarrow>
        (case dict_items h1 (g t) of
           Some items \<Rightarrow> alloc (DictObj (fold (\<lambda>(k, v). dict_put k v) kvs items)) h1
         | None \<Rightarrow> alloc (DictObj (fold (\<lambda>(k, v). dict_put k v) kvs [])) h1))"

subsection \<open>Domains, adapters and the functions written in the table\<close>

datatype domain = PlanarDomain "real list list option" | SphericalDomain | LineDomain "real list"

datatype MicrofacetDistribution = EBeckmann | EGGX

text \<open>
  The third component of an entry: a tuple of two callables, or the result of one of the
  adapters of \<open>mitsuba.core.chi2\<close>, kept as the constructor call with its arguments
  (the adapters are not part of this module).
\<close>

datatype funcs =
    Functions pyfun pyfun
  | SpectrumAdapter string
  | MicrofacetAdapter MicrofacetDistribution real bool
  | BSDFAdapter string string "real list option"
  | InteractiveMicrofacetBSDFAdapter string string

text \<open>
  The lambdas of the table. The module \<open>mitsuba.core.warp\<close> is a parameter: a function
  from attribute names to callables.
\<close>

text \<open>\<open>lambda x: x\<close>\<close>

definition uniform_square_sample :: pyfun where
  "uniform_square_sample =
     \<lparr>formals = [''x''], varargs = False,
      body = (\<lambda>args. case args of [x] \<Rightarrow> Inr x | _ \<Rightarrow> Inl TypeError)\<rparr>"

text \<open>\<open>lambda x: np.ones(x.shape[0])\<close>\<close>

definition uniform_square_density :: pyfun where
  "uniform_square_density =
     \<lparr>formals = [''x''], varargs = False,
      body = (\<lambda>args. case args of
                [x] \<Rightarrow> and_then (shape0 x) (\<lambda>n. Inr (np_ones n))
              | _ \<Rightarrow> Inl TypeError)\<rparr>"

text \<open>\<open>lambda sample, angle: warp.square_to_uniform_cone(sample, np.cos(deg2rad(angle)))\<close>\<close>

definition uniform_cone_sample :: "(string \<Rightarrow> pyfun) \<Rightarrow> pyfun" where
  "uniform_cone_sample warp =
     \<lparr>formals = [''sample'', ''angle''], varargs = False,
      body = (\<lambda>args. case args of
                [sample, angle] \<Rightarrow>
                  and_then (deg2rad angle) (\<lambda>r.
                  and_then (map_num cos r) (\<lambda>c.
                    call (warp ''square_to_uniform_cone'') [sample, c]))
              | _ \<Rightarrow> Inl TypeError)\<rparr>"

text \<open>\<open>lambda v, angle: warp.square_to_uniform_cone_pdf(v, np.cos(deg2rad(angle)))\<close>\<close>

definition uniform_cone_density :: "(string \<Rightarrow> pyfun) \<Rightarrow> pyfun" where
  "uniform_cone_density warp =
     \<lparr>formals = [''v'', ''angle''], varargs = False,
      body = (\<lambda>args. case args of
                [v, angle] \<Rightarrow>
                  and_then (deg2rad angle) (\<lambda>r.
                  and_then (map_num cos r) (\<lambda>c.
                    call (warp ''square_to_uniform_cone_pdf'') [v, c]))
              | _ \<Rightarrow> Inl TypeError)\<rparr>"

text \<open>
  \<open>lambda sample, value: warp.square_to_beckmann(sample,
       np.exp(np.log(0.05) * (1 - value) + np.log(1) * value))\<close>
\<close>

definition beckmann_sample :: "(string \<Rightarrow> pyfun) \<Rightarrow> pyfun" where
  "beckmann_sample warp =
     \<lparr>formals = [''sample'', ''value''], varargs = False,
      body = (\<lambda>args. case args of
                [sample, value] \<Rightarrow>
                  and_then (map_num (\<lambda>x. exp (ln 0.05 * (1 - x) + ln 1 * x)) value) (\<lambda>a.
                    call (warp ''square_to_beckmann'') [sample, a])
              | _ \<Rightarrow> Inl TypeError)\<rparr>"

text \<open>
  \<open>lambda v, value: warp.square_to_beckmann_pdf(v,
       np.exp(np.log(0.05) * (1 - value) + np.log(1) * value))\<close>
\<close>

definition beckmann_density :: "(string \<Rightarrow> pyfun) \<Rightarrow> pyfun" where
  "beckmann_density warp =
     \<lparr>formals = [''v'', ''value''], varargs = False,
      body = (\<lambda>args. case args of
                [v, value] \<Rightarrow>
                  and_then (map_num (\<lambda>x. exp (ln 0.05 * (1 - x) + ln 1 * x)) value) (\<lambda>a.
                    call (warp ''square_to_beckmann_pdf'') [v, a])
              | _ \<Rightarrow> Inl TypeError)\<rparr>"

text \<open>
  \<open>lambda sample, kappa, incl: warp.square_to_rough_fiber(sample,
       np.tile(np.array([np.sin(deg2rad(incl)), 0, np.cos(deg2rad(incl))]), [sample.shape[0], 1]),
       np.tile(np.array([1, 0, 0]), [sample.shape[0], 1]), kappa)\<close>
\<close>

definition rough_fiber_sample :: "(string \<Rightarrow> pyfun) \<Rightarrow> pyfun" where
  "rough_fiber_sample warp =
     \<lparr>formals = [''sample'', ''kappa'', ''incl''], varargs = False,
      body = (\<lambda>args. case args of
                [sample, kappa, incl] \<Rightarrow>
                  and_then (deg2rad incl) (\<lambda>r1.
                  and_then (map_num sin r1) (\<lambda>s.
                  and_then (deg2rad incl) (\<lambda>r2.
                  and_then (map_num cos r2) (\<lambda>c.
                  and_then (np_array3 s (Num 0) c) (\<lambda>wi.
                  and_then (shape0 sample) (\<lambda>n1.
                  and_then (shape0 sample) (\<lambda>n2.
                    call (warp ''square_to_rough_fiber'')
                      [sample, np_tile wi n1, np_tile [1, 0, 0] n2, kappa])))))))
              | _ \<Rightarrow> Inl TypeError)\<rparr>"

text \<open>
  \<open>lambda v, kappa, incl: warp.square_to_rough_fiber_pdf(v,
       np.tile([np.sin(deg2rad(incl)), 0, np.cos(deg2rad(incl))], [v.shape[0], 1]),
       np.tile([1, 0, 0], [v.shape[0], 1]), kappa)\<close>
\<close>

definition rough_fiber_density :: "(string \<Rightarrow> pyfun) \<Rightarrow> pyfun" where
  "rough_fiber_density warp =
     \<lparr>formals = [''v'', ''kappa'', ''incl''], varargs = False,
      body = (\<lambda>args. case args of
                [v, kappa, incl] \<Rightarrow>
                  and_then (deg2rad incl) (\<lambda>r1.
                  and_then (map_num sin r1) (\<lambda>s.
                  and_then (deg2rad incl) (\<lambda>r2.
                  and_then (map_num cos r2) (\<lambda>c.
                  and_then (np_array3 s (Num 0) c) (\<lambda>wi.
                  and_then (shape0 v) (\<lambda>n1.
                  and_then (shape0 v) (\<lambda>n2.
                    call (warp ''square_to_rough_fiber_pdf'')
                      [v, np_tile wi n1, np_tile [1, 0, 0] n2, kappa])))))))
              | _ \<Rightarrow> Inl TypeError)\<rparr>"

subsection \<open>The table, lines 51 to 262\<close>

type_synonym row = "string \<times> domain \<times> funcs \<times> settings_expr"

definition unit_square :: "real list list" where
  "unit_square = [[0, 1], [0, 1]]"

text \<open>
  Two parameter lists that the table writes out several times, each time as a list display
  of its own (so each occurrence below allocates its own list object).
\<close>

definition angle_of_incidence :: "param list" where
  "angle_of_incidence = [(''Angle of incidence'', [0, 90, 30])]"

definition interactive_parameters :: "param list" where
  "interactive_parameters =
     [(''alpha_u'', [0, 1, 0.2]), (''alpha_v'', [0, 1, 0.2]),
      (''Theta'', [0, pi, 0]), (''Phi'', [0, 2 * pi, 0])]"

text \<open>
  The configuration snippets passed to the adapters, each under a name of its own. A
  snippet that the table writes twice is written once here (strings are immutable).
\<close>

definition spectrum_test_xml :: string where
  \<open>spectrum_test_xml = ''<spectrum version="2.0.0" type="interpolated">
        <float name="lambda_min" value="400"/>
        <float name="lambda_max" value="650"/>
        <string name="values" value="1, 5, 3, 6"/>
      </spectrum>''\<close>

definition spectrum_d65_xml :: string where
  \<open>spectrum_d65_xml = ''<spectrum version="2.0.0" type="d65"/>''\<close>

definition spectrum_blackbody_xml :: string where
  \<open>spectrum_blackbody_xml =
     ''<spectrum version="2.0.0" type="blackbody">'' @
     ''   <float name="temperature" value="%f"/>'' @
     ''</spectrum>''\<close>

definition alpha_005_xml :: string where
  \<open>alpha_005_xml = ''
        <float name="alpha" value="0.05"/>
     ''\<close>

definition alpha_025_xml :: string where
  \<open>alpha_025_xml = ''
        <float name="alpha" value="0.25"/>
     ''\<close>

definition beckmann_all_xml :: string where
  \<open>beckmann_all_xml = ''
        <boolean name="sample_visible" value="false"/>
        <string name="distribution" value="beckmann"/>
    ''\<close>

definition beckmann_vis_xml :: string where
  \<open>beckmann_vis_xml = ''
        <boolean name="sample_visible" value="true"/>
        <string name="distribution" value="beckmann"/>
    ''\<close>

definition roughplastic_xml :: string where
  \<open>roughplastic_xml = ''
        <float name="alpha" value="0.25"/>
        <spectrum name="specular_reflectance" value="0.4"/>
        <spectrum name="diffuse_reflectance" value="0.9"/>
     ''\<close>

definition plastic_xml :: string where
  \<open>plastic_xml = ''
        <rgb name="specular_reflectance" value="1.0, 0.1, 0.1"/>
        <rgb name="diffuse_reflectance" value="0.5, 0.5, 1.0"/>
     ''\<close>

definition DISTRIBUTIONS_table :: "(string \<Rightarrow> pyfun) \<Rightarrow> row list" where
  \<open>DISTRIBUTIONS_table warp =
    [(''Uniform square'', PlanarDomain (Some unit_square),
      Functions uniform_square_sample uniform_square_density,
      Global DEFAULT_SETTINGS),
     (''Uniform triangle'', PlanarDomain (Some unit_square),
      Functions (warp ''square_to_uniform_triangle'') (warp ''square_to_uniform_triangle_pdf''),
      DictCall DEFAULT_SETTINGS [(''res'', IntLit 100)]),
     (''Tent function'', PlanarDomain (Some [[- 1, 1], [- 1, 1]]),
      Functions (warp ''square_to_tent'') (warp ''square_to_tent_pdf''),
      Global DEFAULT_SETTINGS),
     (''Uniform disk'', PlanarDomain None,
      Functions (warp ''square_to_uniform_disk'') (warp ''square_to_uniform_disk_pdf''),
      Global DEFAULT_SETTINGS),
     (''Uniform disk (concentric)'', PlanarDomain None,
      Functions (warp ''square_to_uniform_disk_concentric'')
                (warp ''square_to_uniform_disk_concentric_pdf''),
      Global DEFAULT_SETTINGS),
     (''Uniform sphere'', SphericalDomain,
      Functions (warp ''square_to_uniform_sphere'') (warp ''square_to_uniform_sphere_pdf''),
      Global DEFAULT_SETTINGS),
     (''Uniform hemisphere'', SphericalDomain,
      Functions (warp ''square_to_uniform_hemisphere'') (warp ''square_to_uniform_hemisphere_pdf''),
      Global DEFAULT_SETTINGS),
     (''Cosine hemisphere'', SphericalDomain,
      Functions (warp ''square_to_cosine_hemisphere'') (warp ''square_to_cosine_hemisphere_pdf''),
      Global DEFAULT_SETTINGS),
     (''Uniform cone'', SphericalDomain,
      Functions (uniform_cone_sample warp) (uniform_cone_density warp),
      DictCall DEFAULT_SETTINGS
        [(''parameters'', ListLit [(''Cutoff angle'', [1 / 10000, 180, 20])])]),
     (''Beckmann distribution'', SphericalDomain,
      Functions (beckmann_sample warp) (beckmann_density warp),
      DictCall DEFAULT_SETTINGS
        [(''parameters'', ListLit [(''Roughness'', [0, 1, 0.6])])]),
     (''von Mises-Fisher distribution'', SphericalDomain,
      Functions (warp ''square_to_von_mises_fisher'') (warp ''square_to_von_mises_fisher_pdf''),
      DictCall DEFAULT_SETTINGS
        [(''parameters'', ListLit [(''Concentration'', [0, 100, 10])])]),
     (''Rough fiber distribution'', SphericalDomain,
      Functions (rough_fiber_sample warp) (rough_fiber_density warp),
      DictCall DEFAULT_SETTINGS
        [(''sample_dim'', IntLit 3),
         (''parameters'', ListLit [(''Concentration'', [0, 500, 10]),
                                   (''Inclination'', [0, 90, 20])])]),
     (''Spectrum: test'', LineDomain [300, 700],
      SpectrumAdapter spectrum_test_xml,
      DictCall DEFAULT_SETTINGS [(''sample_dim'', IntLit 1)]),
     (''Spectrum: d65'', LineDomain [360, 830],
      SpectrumAdapter spectrum_d65_xml,
      DictCall DEFAULT_SETTINGS [(''sample_dim'', IntLit 1)]),
     (''Spectrum: blackbody'', LineDomain [360, 830],
      SpectrumAdapter spectrum_blackbody_xml,
      DictCall DEFAULT_SETTINGS
        [(''sample_dim'', IntLit 1),
         (''parameters'', ListLit [(''Temperature'', [0, 8000, 3000])])]),
     (''Microfact: Beckmann, all, 0.5'', SphericalDomain,
      MicrofacetAdapter EBeckmann 0.5 False, Global DEFAULT_SETTINGS),
     (''Microfact: Beckmann, all, 0.1'', SphericalDomain,
      MicrofacetAdapter EBeckmann 0.1 False, Global DEFAULT_SETTINGS),
     (''Microfact: Beckmann, vis, 0.5'', SphericalDomain,
      MicrofacetAdapter EBeckmann 0.5 True,
      DictCall DEFAULT_SETTINGS [(''parameters'', ListLit angle_of_incidence)]),
     (''Microfact: Beckmann, vis, 0.1'', SphericalDomain,
      MicrofacetAdapter EBeckmann 0.1 True,
      DictCall DEFAULT_SETTINGS [(''parameters'', ListLit angle_of_incidence)]),
     (''Microfact: GGX, all, 0.5'', SphericalDomain,
      MicrofacetAdapter EGGX 0.5 False, Global DEFAULT_SETTINGS),
     (''Microfact: GGX, all, 0.1'', SphericalDomain,
      MicrofacetAdapter EGGX 0.1 False, Global DEFAULT_SETTINGS),
     (''Microfact: GGX, vis, 0.5'', SphericalDomain,
      MicrofacetAdapter EGGX 0.5 True,
      DictCall DEFAULT_SETTINGS [(''parameters'', ListLit angle_of_incidence)]),
     (''Microfact: GGX, vis, 0.1'', SphericalDomain,
      MicrofacetAdapter EGGX 0.1 True,
      DictCall DEFAULT_SETTINGS [(''parameters'', ListLit angle_of_incidence)]),
     (''Diffuse BSDF'', SphericalDomain,
      BSDFAdapter ''diffuse'' [] None, Global DEFAULT_SETTINGS_3),
     (''Rough conductor BSDF - smooth'', SphericalDomain,
      BSDFAdapter ''roughconductor'' alpha_005_xml None, Global DEFAULT_SETTINGS_3),
     (''Rough conductor BSDF - rough'', SphericalDomain,
      BSDFAdapter ''roughconductor'' alpha_025_xml None, Global DEFAULT_SETTINGS_3),
     (''Rough conductor BSDF - rough - alternative wi'', SphericalDomain,
      BSDFAdapter ''roughconductor'' alpha_025_xml (Some [0.970942, 0, 0.239316]),
      Global DEFAULT_SETTINGS_3),
     (''Rough conductor BSDF - interactive'', SphericalDomain,
      InteractiveMicrofacetBSDFAdapter ''roughconductor'' beckmann_all_xml,
      DictCall DEFAULT_SETTINGS_3 [(''parameters'', ListLit interactive_parameters)]),
     (''Rough conductor BSDF - vis - interactive'', SphericalDomain,
      InteractiveMicrofacetBSDFAdapter ''roughconductor'' beckmann_vis_xml,
      DictCall DEFAULT_SETTINGS_3 [(''parameters'', ListLit interactive_parameters)]),
     (''Rough plastic BSDF - rough'', SphericalDomain,
      BSDFAdapter ''roughplastic'' roughplastic_xml None, Global DEFAULT_SETTINGS_3),
     (''Rough plastic BSDF - rough - alternative wi'', SphericalDomain,
      BSDFAdapter ''roughplastic'' roughplastic_xml (Some [0.48666426, 0.32444284, 0.81110711]),
      Global DEFAULT_SETTINGS_3),
     (''Plastic BSDF'', SphericalDomain,
      BSDFAdapter ''plastic'' plastic_xml None, Global DEFAULT_SETTINGS_3),
     (''Plastic BSDF - alternative wi'', SphericalDomain,
      BSDFAdapter ''plastic'' plastic_xml (Some [0.48666426, 0.32444284, 0.81110711]),
      Global DEFAULT_SETTINGS_3)]\<close>

subsection \<open>Arrays of images and the hierarchical warp builders, lines 264 to 305\<close>

text \<open>
  An n-dimensional array: its shape and its elements by index. The conversion to
  \<open>np.float32\<close> is part of the image reader, a parameter below.
\<close>

record ndarray =
  shape :: "nat list"
  elem :: "nat list \<Rightarrow> real"

text \<open>
  \<open>a.squeeze()\<close> removes the axes of length one; the index \<open>0\<close> is put back at
  these axes to read the original array.
\<close>

fun expand_index :: "nat list \<Rightarrow> nat list \<Rightarrow> nat list" where
  "expand_index [] idx = []"
| "expand_index (d # ds) idx =
     (if d = 1 then 0 # expand_index ds idx
      else (case idx of [] \<Rightarrow> [] | i # rest \<Rightarrow> i # expand_index ds rest))"

definition squeeze :: "ndarray \<Rightarrow> ndarray" where
  "squeeze a = \<lparr>shape = filter (\<lambda>d. d \<noteq> 1) (shape a),
                elem = (\<lambda>idx. elem a (expand_index (shape a) idx))\<rparr>"

text \<open>\<open>np.full(shp, v)\<close>\<close>

definition np_full :: "nat list \<Rightarrow> real \<Rightarrow> ndarray" where
  "np_full shp v = \<lparr>shape = shp, elem = (\<lambda>idx. v)\<rparr>"

text \<open>
  numpy's rule for an assignment \<open>target[...] = value\<close>: leading axes of length one of
  the value are dropped, the remaining axes are aligned with the last axes of the target
  region, and each must have the region's length or length one. An axis of length one
  (and a missing axis) is read at index \<open>0\<close> for every index of the region.
\<close>

definition broadcastable :: "nat list \<Rightarrow> nat list \<Rightarrow> bool" where
  "broadcastable src dst =
     (let s = dropWhile (\<lambda>d. d = 1) src
      in length s \<le> length dst \<and>
         list_all2 (\<lambda>d t. d = 1 \<or> d = t) s (drop (length dst - length s) dst))"

definition broadcast_index :: "nat list \<Rightarrow> nat list \<Rightarrow> nat list" where
  "broadcast_index src idx =
     (let s = dropWhile (\<lambda>d. d = 1) src
      in replicate (length src - length s) 0 @
         map2 (\<lambda>d i. if d = 1 then 0 else i) s (drop (length idx - length s) idx))"

text \<open>
  \<open>tensor[i, j, :, :] = v\<close> for a four-dimensional tensor; \<open>ValueError\<close> when \<open>v\<close>
  cannot be broadcast to the shape of the plane.
\<close>

definition set_plane :: "ndarray \<Rightarrow> nat \<Rightarrow> nat \<Rightarrow> ndarray \<Rightarrow> error + ndarray" where
  "set_plane t i j v =
     (if broadcastable (shape v) (drop 2 (shape t))
      then Inr \<lparr>shape = shape t,
                elem = (\<lambda>idx. case idx of
                          [a, b, y, x] \<Rightarrow>
                            if a = i \<and> b = j then elem v (broadcast_index (shape v) [y, x])
                            else elem t idx
                        | _ \<Rightarrow> elem t idx)\<rparr>
      else Inl ValueError)"

text \<open>
  The object built by \<open>Linear2D0\<close> or \<open>Linear2D2\<close> (classes of \<open>mitsuba.core.warp\<close>):
  its two methods.
\<close>

record distr =
  sample :: pyfun
  eval :: pyfun

text \<open>
  What the builders take from outside the module: the file resolver of the thread
  (\<open>fr.resolve\<close>), the image reader (\<open>np.array(Bitmap(path), dtype=np.float32)\<close>), the two
  constructors, and the module \<open>warp\<close>. Each of the first four may raise. The decorator
  \<open>fresolver_append_path\<close> only changes which paths the resolver finds.
\<close>

record env =
  resolve :: "string \<Rightarrow> error + string"
  Bitmap_array :: "string \<Rightarrow> error + ndarray"
  Linear2D0 :: "ndarray \<Rightarrow> error + distr"
  Linear2D2 :: "ndarray \<Rightarrow> real list list \<Rightarrow> error + distr"
  warp :: "string \<Rightarrow> pyfun"

definition load_image :: "env \<Rightarrow> string \<Rightarrow> error + ndarray" where
  "load_image e path = and_then (resolve e path) (Bitmap_array e)"

definition prefix :: string where
  "prefix = ''resources/data/tests/warp/''"

text \<open>The two functors of \<open>LinearWarp2D0Test\<close>, closed over the object \<open>d\<close>.\<close>

definition sample_functor0 :: "distr \<Rightarrow> pyfun" where
  "sample_functor0 d =
     \<lparr>formals = [''sample''], varargs = True,
      body = (\<lambda>args. case args of
                [] \<Rightarrow> Inl TypeError
              | smp # rest \<Rightarrow> and_then (call (sample d) (smp # rest)) getitem0)\<rparr>"

definition pdf_functor0 :: "distr \<Rightarrow> pyfun" where
  "pdf_functor0 d =
     \<lparr>formals = [''p''], varargs = True,
      body = (\<lambda>args. case args of
                [] \<Rightarrow> Inl TypeError
              | p # rest \<Rightarrow> call (eval d) (p # rest))\<rparr>"

definition LinearWarp2D0Test :: "env \<Rightarrow> error + funcs" where
  "LinearWarp2D0Test e =
     and_then (load_image e (prefix @ ''small.png'')) (\<lambda>img0.
     and_then (Linear2D0 e (squeeze img0)) (\<lambda>d.
       Inr (Functions (sample_functor0 d) (pdf_functor0 d))))"

text \<open>The two functors of \<open>LinearWarp2D2Test\<close>.\<close>

definition sample_functor2 :: "distr \<Rightarrow> pyfun" where
  "sample_functor2 d =
     \<lparr>formals = [''sample''], varargs = True,
      body = (\<lambda>args. case args of
                [] \<Rightarrow> Inl TypeError
              | smp # rest \<Rightarrow> and_then (call (sample d) (smp # rest)) getitem0)\<rparr>"

definition pdf_functor2 :: "distr \<Rightarrow> pyfun" where
  "pdf_functor2 d =
     \<lparr>formals = [''p''], varargs = True,
      body = (\<lambda>args. case args of
                [] \<Rightarrow> Inl TypeError
              | p # rest \<Rightarrow> call (eval d) (p # rest))\<rparr>"

text \<open>The tensor of \<open>LinearWarp2D2Test\<close>, from the four arrays read.\<close>

definition make_tensor :: "ndarray \<Rightarrow> ndarray \<Rightarrow> ndarray \<Rightarrow> ndarray \<Rightarrow> error + ndarray" where
  "make_tensor img0 img1 img2 img3 =
     and_then (set_plane (np_full [2, 2, 512, 512] 0) 0 0 (squeeze img0)) (\<lambda>t1.
     and_then (set_plane t1 0 1 (squeeze img1)) (\<lambda>t2.
     and_then (set_plane t2 1 0 (squeeze img2)) (\<lambda>t3.
       set_plane t3 1 1 (squeeze img3))))"

definition LinearWarp2D2Test :: "env \<Rightarrow> error + funcs" where
  "LinearWarp2D2Test e =
     and_then (load_image e (prefix @ ''img0.png'')) (\<lambda>img0.
     and_then (load_image e (prefix @ ''img1.png'')) (\<lambda>img1.
     and_then (load_image e (prefix @ ''img2.png'')) (\<lambda>img2.
     and_then (load_image e (prefix @ ''img3.png'')) (\<lambda>img3.
     and_then (make_tensor img0 img1 img2 img3) (\<lambda>tensor.
     and_then (Linear2D2 e tensor [[0, 1], [0, 1]]) (\<lambda>d.
       Inr (Functions (sample_functor2 d) (pdf_functor2 d))))))))"

subsection \<open>The module as a whole\<close>

text \<open>
  An entry of \<open>DISTRIBUTIONS\<close> holds the address of its settings dictionary. The rows of
  a list display are evaluated in order.
\<close>

type_synonym entry = "string \<times> domain \<times> funcs \<times> addr"

fun eval_rows :: "(template \<Rightarrow> addr) \<Rightarrow> row list \<Rightarrow> store \<Rightarrow> entry list \<times> store" where
  "eval_rows g [] h = ([], h)"
| "eval_rows g ((n, d, f, se) # rows) h =
     (case eval_settings g se h of (a, h1) \<Rightarrow>
        (case eval_rows g rows h1 of (es, h2) \<Rightarrow> ((n, d, f, a) # es, h2)))"

text \<open>The settings expressions of a list of rows, evaluated in order.\<close>

definition row_settings :: "row \<Rightarrow> settings_expr" where
  "row_settings r = snd (snd (snd r))"

fun eval_exprs :: "(template \<Rightarrow> addr) \<Rightarrow> settings_expr list \<Rightarrow> store \<Rightarrow> addr list \<times> store" where
  "eval_exprs g [] h = ([], h)"
| "eval_exprs g (se # ses) h =
     (case eval_settings g se h of (a, h1) \<Rightarrow>
        (case eval_exprs g ses h1 of (as, h2) \<Rightarrow> (a # as, h2)))"

definition entry_name :: "entry \<Rightarrow> string" where
  "entry_name e = fst e"

definition entry_domain :: "entry \<Rightarrow> domain" where
  "entry_domain e = fst (snd e)"

definition entry_funcs :: "entry \<Rightarrow> funcs" where
  "entry_funcs e = fst (snd (snd e))"

definition entry_settings :: "entry \<Rightarrow> addr" where
  "entry_settings e = snd (snd (snd e))"

record module =
  heap :: store
  globals :: "template \<Rightarrow> addr"
  DISTRIBUTIONS :: "entry list"

text \<open>Lines 47 to 262: the two templates, then the table.\<close>

definition module_base :: "(string \<Rightarrow> pyfun) \<Rightarrow> module" where
  "module_base w =
     (case new_settings 2 empty_store of (d2, h1) \<Rightarrow>
      case new_settings 3 h1 of (d3, h2) \<Rightarrow>
        (let g = (\<lambda>t. case t of DEFAULT_SETTINGS \<Rightarrow> d2 | DEFAULT_SETTINGS_3 \<Rightarrow> d3)
         in case eval_rows g (DISTRIBUTIONS_table w) h2 of (es, h3) \<Rightarrow>
              \<lparr>heap = h3, globals = g, DISTRIBUTIONS = es\<rparr>))"

text \<open>Lines 308 to 321, given the results of the two builder calls.\<close>

definition hierarchical_rows :: "funcs \<Rightarrow> funcs \<Rightarrow> row list" where
  "hierarchical_rows f0 f2 =
     [(''Hierarchical warp (small)'', PlanarDomain (Some [[0, 1], [0, 1]]), f0,
       Global DEFAULT_SETTINGS),
      (''Hierarchical warp (4D, big)'', PlanarDomain (Some [[0, 1], [0, 1]]), f2,
       DictCall DEFAULT_SETTINGS
         [(''parameters'', ListLit [(''param0'', [0, 1, 0.5]), (''param1'', [0, 1, 0.005])])])]"

definition module_extend :: "module \<Rightarrow> funcs \<Rightarrow> funcs \<Rightarrow> module" where
  "module_extend m f0 f2 =
     (case eval_rows (globals m) (hierarchical_rows f0 f2) (heap m) of (es, h) \<Rightarrow>
        \<lparr>heap = h, globals = globals m, DISTRIBUTIONS = DISTRIBUTIONS m @ es\<rparr>)"

text \<open>
  Importing the module. An exception of a builder call is not caught anywhere: it ends the
  import, and no module object (so no \<open>DISTRIBUTIONS\<close>) results.
\<close>

definition load_module :: "env \<Rightarrow> error + module" where
  "load_module e =
     (let m = module_base (warp e)
      in and_then (LinearWarp2D0Test e) (\<lambda>f0.
         and_then (LinearWarp2D2Test e) (\<lambda>f2.
           Inr (module_extend m f0 f2))))"

subsection \<open>Reading and changing settings through an entry\<close>

text \<open>\<open>settings[k]\<close> for an integer field, and the list that \<open>settings['parameters']\<close> refers to.\<close>

definition read_key :: "store \<Rightarrow> addr \<Rightarrow> string \<Rightarrow> val option" where
  "read_key h a k = (case dict_items h a of Some kvs \<Rightarrow> map_of kvs k | None \<Rightarrow> None)"

definition read_int :: "store \<Rightarrow> addr \<Rightarrow> string \<Rightarrow> int option" where
  "read_int h a k =
     (case read_key h a k of Some (IntV n) \<Rightarrow> Some n | Some (Ref l) \<Rightarrow> None | None \<Rightarrow> None)"

definition read_list :: "store \<Rightarrow> addr \<Rightarrow> param list option" where
  "read_list h l =
     (case lookup h l of Some (ListObj ps) \<Rightarrow> Some ps | Some (DictObj kvs) \<Rightarrow> None | None \<Rightarrow> None)"

definition parameters_of :: "store \<Rightarrow> addr \<Rightarrow> param list option" where
  "parameters_of h a =
     (case read_key h a ''parameters'' of
        Some (Ref l) \<Rightarrow> read_list h l | Some (IntV n) \<Rightarrow> None | None \<Rightarrow> None)"

text \<open>The lists that the dictionary at an address refers to.\<close>

definition refs :: "store \<Rightarrow> addr \<Rightarrow> addr list" where
  "refs h a =
     (case dict_items h a of
        Some kvs \<Rightarrow> concat (map (\<lambda>kv. case snd kv of IntV n \<Rightarrow> [] | Ref l \<Rightarrow> [l]) kvs)
      | None \<Rightarrow> [])"

text \<open>
  Everything that can be read through a settings dictionary: each key with its integer,
  or with the contents of the list it refers to.
\<close>

definition deref :: "store \<Rightarrow> val \<Rightarrow> (int + param list) option" where
  "deref h v = (case v of IntV n \<Rightarrow> Some (Inl n) | Ref l \<Rightarrow> map_option Inr (read_list h l))"

type_synonym view = "(string \<times> (int + param list) option) list option"

definition settings_view :: "store \<Rightarrow> addr \<Rightarrow> view" where
  "settings_view h a = map_option (map (\<lambda>kv. (fst kv, deref h (snd kv)))) (dict_items h a)"

text \<open>
  The two mutations through a settings dictionary: \<open>settings[k] = v\<close> and
  \<open>settings['parameters'].append(p)\<close>.
\<close>

datatype mutation = SetItem string val | AppendParameter param

fun mutate :: "store \<Rightarrow> addr \<Rightarrow> mutation \<Rightarrow> error + store" where
  "mutate h a (SetItem k v) =
     (case dict_items h a of
        Some kvs \<Rightarrow> Inr (h[a := DictObj (dict_put k v kvs)])
      | None \<Rightarrow> Inl TypeError)"
| "mutate h a (AppendParameter p) =
     (case read_key h a ''parameters'' of
        None \<Rightarrow> Inl KeyError
      | Some (IntV n) \<Rightarrow> Inl AttributeError
      | Some (Ref l) \<Rightarrow>
          (case read_list h l of
             Some ps \<Rightarrow> Inr (h[l := ListObj (ps @ [p])])
           | None \<Rightarrow> Inl AttributeError))"

text \<open>What is read through the settings at \<open>b\<close> after a mutation through those at \<open>a\<close>.\<close>

definition view_after :: "store \<Rightarrow> addr \<Rightarrow> mutation \<Rightarrow> addr \<Rightarrow> error + view" where
  "view_after h a mu b = and_then (mutate h a mu) (\<lambda>h'. Inr (settings_view h' b))"

text \<open>
  An entry has settings of its own when they are not one of the two global dictionaries,
  and a parameter list of its own when it is not the list of one of them.
\<close>

definition own_settings :: "module \<Rightarrow> entry \<Rightarrow> bool" where
  "own_settings m e =
     (entry_settings e \<noteq> globals m DEFAULT_SETTINGS \<and> entry_settings e \<noteq> globals m DEFAULT_SETTINGS_3)"

definition own_parameters :: "module \<Rightarrow> entry \<Rightarrow> bool" where
  "own_parameters m e =
     (read_key (heap m) (entry_settings e) ''parameters'' \<noteq>
        read_key (heap m) (globals m DEFAULT_SETTINGS) ''parameters'' \<and>
      read_key (heap m) (entry_settings e) ''parameters'' \<noteq>
        read_key (heap m) (globals m DEFAULT_SETTINGS_3) ''parameters'')"

text \<open>A settings dictionary with the four keys of the templates, as an object of the store.\<close>

definition settings_obj :: "int \<Rightarrow> int \<Rightarrow> addr \<Rightarrow> obj" where
  "settings_obj d r l =
     DictObj [(''sample_dim'', IntV d), (''ires'', IntV 10), (''res'', IntV r),
              (''parameters'', Ref l)]"

subsection \<open>Properties of an entry\<close>

text \<open>A parameter \<open>(label, [min, max, default])\<close> whose default lies in its range.\<close>

definition param_in_range :: "param \<Rightarrow> bool" where
  "param_in_range p = (case snd p of [mn, mx, df] \<Rightarrow> mn \<le> df \<and> df \<le> mx | _ \<Rightarrow> False)"

definition defaults_in_range :: "store \<Rightarrow> entry \<Rightarrow> bool" where
  "defaults_in_range h e =
     (case parameters_of h (entry_settings e) of Some ps \<Rightarrow> list_all param_in_range ps | None \<Rightarrow> False)"

text \<open>The sample dimensions that go with a domain, and the entries built by a BSDF adapter.\<close>

fun dim_matches :: "domain \<Rightarrow> int \<Rightarrow> bool" where
  "dim_matches (LineDomain r) d = (d = 1)"
| "dim_matches (PlanarDomain b) d = (d = 2)"
| "dim_matches SphericalDomain d = (d = 2 \<or> d = 3)"

fun is_bsdf :: "funcs \<Rightarrow> bool" where
  "is_bsdf (BSDFAdapter plugin xml wi) = True"
| "is_bsdf (InteractiveMicrofacetBSDFAdapter plugin xml) = True"
| "is_bsdf f = False"

text \<open>
  A callable that takes its first argument and exactly \<open>k\<close> further positional ones, and
  the entries whose third component is a pair of functions.
\<close>

definition exact_arity :: "pyfun \<Rightarrow> nat \<Rightarrow> bool" where
  "exact_arity f k = (\<not> varargs f \<and> length (formals f) = Suc k)"

fun is_functions :: "funcs \<Rightarrow> bool" where
  "is_functions (Functions s p) = True"
| "is_functions f = False"

text \<open>
  Modelled from the spec: the signatures of the routines of \<open>mitsuba.core.warp\<close> that the
  table uses as they are (the routines are not part of this module). By the contract of
  the spec each is callable as \<open>f(u, *params)\<close> with the parameters of its entry; the
  number of these further arguments is listed per routine.
\<close>

definition warp_signatures :: "(string \<times> nat) list" where
  "warp_signatures =
     [(''square_to_uniform_triangle'', 0), (''square_to_uniform_triangle_pdf'', 0),
      (''square_to_tent'', 0), (''square_to_tent_pdf'', 0),
      (''square_to_uniform_disk'', 0), (''square_to_uniform_disk_pdf'', 0),
      (''square_to_uniform_disk_concentric'', 0), (''square_to_uniform_disk_concentric_pdf'', 0),
      (''square_to_uniform_sphere'', 0), (''square_to_uniform_sphere_pdf'', 0),
      (''square_to_uniform_hemisphere'', 0), (''square_to_uniform_hemisphere_pdf'', 0),
      (''square_to_cosine_hemisphere'', 0), (''square_to_cosine_hemisphere_pdf'', 0),
      (''square_to_von_mises_fisher'', 1), (''square_to_von_mises_fisher_pdf'', 1)]"

definition warp_conforms :: "(string \<Rightarrow> pyfun) \<Rightarrow> bool" where
  "warp_conforms w = list_all (\<lambda>nk. exact_arity (w (fst nk)) (snd nk)) warp_signatures"

text \<open>The four images fit the tensor when each, squeezed, can be broadcast to a plane.\<close>

definition fits_plane :: "ndarray \<Rightarrow> bool" where
  "fits_plane a = broadcastable (shape (squeeze a)) [512, 512]"

text \<open>The value written at row \<open>y\<close>, column \<open>x\<close> of a plane from the image \<open>a\<close>.\<close>

definition plane_value :: "ndarray \<Rightarrow> nat \<Rightarrow> nat \<Rightarrow> real" where
  "plane_value a y x = elem (squeeze a) (broadcast_index (shape (squeeze a)) [y, x])"

subsection \<open>Concrete environments\<close>

text \<open>
  Environments on which the statements below are evaluated: an image of a given shape,
  a distribution object whose \<open>sample\<close> returns a pair (position, density), and a warp
  module with the signatures above.
\<close>

definition const_image :: "nat list \<Rightarrow> ndarray" where
  "const_image shp = \<lparr>shape = shp, elem = (\<lambda>idx. 1)\<rparr>"

definition const_distr :: distr where
  "const_distr =
     \<lparr>sample = \<lparr>formals = [''sample''], varargs = True,
                body = (\<lambda>args. Inr (Tuple [Arr2 [[1 / 2, 1 / 2]], Arr1 [1]]))\<rparr>,
      eval = \<lparr>formals = [''pos''], varargs = True,
              body = (\<lambda>args. Inr (Arr1 [1]))\<rparr>\<rparr>"

definition const_warp :: "string \<Rightarrow> pyfun" where
  "const_warp n =
     \<lparr>formals = (if n = ''square_to_von_mises_fisher'' \<or> n = ''square_to_von_mises_fisher_pdf''
                 then [''sample'', ''kappa''] else [''sample'']),
      varargs = False,
      body = (\<lambda>args. Inr (Arr1 [1]))\<rparr>"

text \<open>All images are there, each 512 by 512 with one channel.\<close>

definition env_all_512 :: env where
  "env_all_512 =
     \<lparr>resolve = Inr, Bitmap_array = (\<lambda>path. Inr (const_image [512, 512, 1])),
      Linear2D0 = (\<lambda>a. Inr const_distr), Linear2D2 = (\<lambda>a g. Inr const_distr),
      warp = const_warp\<rparr>"

text \<open>The file \<open>small.png\<close> cannot be read.\<close>

definition env_small_missing :: env where
  "env_small_missing =
     env_all_512\<lparr>Bitmap_array := (\<lambda>path. if path = prefix @ ''small.png'' then Inl (IOError path)
                                          else Inr (const_image [512, 512, 1]))\<rparr>"

text \<open>The file \<open>img2.png\<close> cannot be read.\<close>

definition env_img2_missing :: env where
  "env_img2_missing =
     env_all_512\<lparr>Bitmap_array := (\<lambda>path. if path = prefix @ ''img2.png'' then Inl (IOError path)
                                          else Inr (const_image [512, 512, 1]))\<rparr>"

text \<open>\<open>img0.png\<close> is 512 by 512, the three other images are 1 by 1.\<close>

definition env_unequal_sizes :: env where
  "env_unequal_sizes =
     env_all_512\<lparr>Bitmap_array := (\<lambda>path. if path = prefix @ ''img0.png''
                                          then Inr (const_image [512, 512, 1])
                                          else Inr (const_image [1, 1, 1]))\<rparr>"

text \<open>All images are 256 by 256.\<close>

definition env_all_256 :: env where
  "env_all_256 = env_all_512\<lparr>Bitmap_array := (\<lambda>path. Inr (const_image [256, 256, 1]))\<rparr>"

text \<open>The module loaded in the first environment.\<close>

definition module_512 :: module where
  "module_512 =
     module_extend (module_base const_warp)
       (Functions (sample_functor0 const_distr) (pdf_functor0 const_distr))
       (Functions (sample_functor2 const_distr) (pdf_functor2 const_distr))"

section \<open>Properties\<close>

subsection \<open>Sequencing and calls\<close>

lemma and_then_Inr [simp]: "and_then (Inr x) f = f x"
  by (simp add: and_then_def)

lemma and_then_Inl [simp]: "and_then (Inl e) f = Inl e"
  by (simp add: and_then_def)

lemma and_then_eq_Inr:
  "and_then r f = Inr y \<longleftrightarrow> (\<exists>x. r = Inr x \<and> f x = Inr y)"
  by (cases r) simp_all

lemma exact_arity_accepts: "exact_arity f k \<Longrightarrow> accepts f n = (n = Suc k)"
  by (simp add: exact_arity_def accepts_def)

subsection \<open>The builders\<close>

lemma broadcastable_squeezed:
  "1 \<notin> set s \<Longrightarrow> broadcastable s [512, 512] \<longleftrightarrow> s = [] \<or> s = [512] \<or> s = [512, 512]"
proof -
  assume a: "1 \<notin> set s"
  then have dw: "dropWhile (\<lambda>d. d = 1) s = s"
    by (cases s) auto
  show ?thesis
  proof (cases s)
    case Nil
    then show ?thesis by (simp add: broadcastable_def)
  next
    case (Cons x xs)
    note c1 = Cons
    show ?thesis
    proof (cases xs)
      case Nil
      with c1 a show ?thesis by (auto simp: broadcastable_def)
    next
      case (Cons y ys)
      with c1 a show ?thesis
        by (cases ys) (auto simp: broadcastable_def)
    qed
  qed
qed

lemma fits_plane_iff:
  "fits_plane a \<longleftrightarrow> filter (\<lambda>d. d \<noteq> 1) (shape a) \<in> {[], [512], [512, 512]}"
  using broadcastable_squeezed [of "filter (\<lambda>d. d \<noteq> 1) (shape a)"]
  by (simp add: fits_plane_def squeeze_def)

lemma set_plane_shape: "set_plane t i j v = Inr t' \<Longrightarrow> shape t' = shape t"
  by (auto simp: set_plane_def split: if_splits)

lemma make_tensor_fits:
  assumes "fits_plane a0" "fits_plane a1" "fits_plane a2" "fits_plane a3"
  shows "\<exists>t. make_tensor a0 a1 a2 a3 = Inr t \<and> shape t = [2, 2, 512, 512] \<and>
           (\<forall>y x. elem t [0, 0, y, x] = plane_value a0 y x \<and>
                  elem t [0, 1, y, x] = plane_value a1 y x \<and>
                  elem t [1, 0, y, x] = plane_value a2 y x \<and>
                  elem t [1, 1, y, x] = plane_value a3 y x)"
  using assms
  by (simp add: make_tensor_def set_plane_def np_full_def fits_plane_def plane_value_def)

lemma make_tensor_misfit:
  assumes "\<not> (fits_plane a0 \<and> fits_plane a1 \<and> fits_plane a2 \<and> fits_plane a3)"
  shows "make_tensor a0 a1 a2 a3 = Inl ValueError"
  using assms
  by (auto simp: make_tensor_def set_plane_def np_full_def fits_plane_def)

subsection \<open>The store after the import\<close>

lemma eval_rows_exprs:
  "eval_rows g rows h =
     (map2 (\<lambda>r a. (fst r, fst (snd r), fst (snd (snd r)), a)) rows
           (fst (eval_exprs g (map row_settings rows) h)),
      snd (eval_exprs g (map row_settings rows) h))"
  by (induction rows arbitrary: h) (auto simp: row_settings_def split: prod.splits)

lemma table_exprs:
  "map row_settings (DISTRIBUTIONS_table w) =
     [Global DEFAULT_SETTINGS,
      DictCall DEFAULT_SETTINGS [(''res'', IntLit 100)],
      Global DEFAULT_SETTINGS, Global DEFAULT_SETTINGS, Global DEFAULT_SETTINGS,
      Global DEFAULT_SETTINGS, Global DEFAULT_SETTINGS, Global DEFAULT_SETTINGS,
      DictCall DEFAULT_SETTINGS
        [(''parameters'', ListLit [(''Cutoff angle'', [1 / 10000, 180, 20])])],
      DictCall DEFAULT_SETTINGS [(''parameters'', ListLit [(''Roughness'', [0, 1, 0.6])])],
      DictCall DEFAULT_SETTINGS [(''parameters'', ListLit [(''Concentration'', [0, 100, 10])])],
      DictCall DEFAULT_SETTINGS
        [(''sample_dim'', IntLit 3),
         (''parameters'', ListLit [(''Concentration'', [0, 500, 10]),
                                   (''Inclination'', [0, 90, 20])])],
      DictCall DEFAULT_SETTINGS [(''sample_dim'', IntLit 1)],
      DictCall DEFAULT_SETTINGS [(''sample_dim'', IntLit 1)],
      DictCall DEFAULT_SETTINGS
        [(''sample_dim'', IntLit 1),
         (''parameters'', ListLit [(''Temperature'', [0, 8000, 3000])])],
      Global DEFAULT_SETTINGS, Global DEFAULT_SETTINGS,
      DictCall DEFAULT_SETTINGS [(''parameters'', ListLit angle_of_incidence)],
      DictCall DEFAULT_SETTINGS [(''parameters'', ListLit angle_of_incidence)],
      Global DEFAULT_SETTINGS, Global DEFAULT_SETTINGS,
      DictCall DEFAULT_SETTINGS [(''parameters'', ListLit angle_of_incidence)],
      DictCall DEFAULT_SETTINGS [(''parameters'', ListLit angle_of_incidence)],
      Global DEFAULT_SETTINGS_3, Global DEFAULT_SETTINGS_3, Global DEFAULT_SETTINGS_3,
      Global DEFAULT_SETTINGS_3,
      DictCall DEFAULT_SETTINGS_3 [(''parameters'', ListLit interactive_parameters)],
      DictCall DEFAULT_SETTINGS_3 [(''parameters'', ListLit interactive_parameters)],
      Global DEFAULT_SETTINGS_3, Global DEFAULT_SETTINGS_3, Global DEFAULT_SETTINGS_3,
      Global DEFAULT_SETTINGS_3]"
  by (simp add: DISTRIBUTIONS_table_def row_settings_def)

lemmas build_simps = module_base_def module_extend_def eval_rows_exprs table_exprs
  hierarchical_rows_def row_settings_def new_settings_def alloc_def empty_store_def
  dict_items_def lookup_def

lemma import_heap:
  "heap (module_extend (module_base w) f0 f2) =
     [ListObj [], settings_obj 2 101 0,
      ListObj [], settings_obj 3 101 2,
      settings_obj 2 100 0,
      ListObj [(''Cutoff angle'', [1 / 10000, 180, 20])], settings_obj 2 101 5,
      ListObj [(''Roughness'', [0, 1, 0.6])], settings_obj 2 101 7,
      ListObj [(''Concentration'', [0, 100, 10])], settings_obj 2 101 9,
      ListObj [(''Concentration'', [0, 500, 10]), (''Inclination'', [0, 90, 20])],
      settings_obj 3 101 11,
      settings_obj 1 101 0,
      settings_obj 1 101 0,
      ListObj [(''Temperature'', [0, 8000, 3000])], settings_obj 1 101 15,
      ListObj angle_of_incidence, settings_obj 2 101 17,
      ListObj angle_of_incidence, settings_obj 2 101 19,
      ListObj angle_of_incidence, settings_obj 2 101 21,
      ListObj angle_of_incidence, settings_obj 2 101 23,
      ListObj interactive_parameters, settings_obj 3 101 25,
      ListObj interactive_parameters, settings_obj 3 101 27,
      ListObj [(''param0'', [0, 1, 0.5]), (''param1'', [0, 1, 0.005])], settings_obj 2 101 29]"
  by (simp add: build_simps settings_obj_def)

lemma import_globals:
  "globals (module_extend (module_base w) f0 f2) DEFAULT_SETTINGS = 1"
  "globals (module_extend (module_base w) f0 f2) DEFAULT_SETTINGS_3 = 3"
  by (simp_all add: build_simps)

lemma import_settings:
  "map entry_settings (DISTRIBUTIONS (module_extend (module_base w) f0 f2)) =
     [1, 4, 1, 1, 1, 1, 1, 1, 6, 8, 10, 12, 13, 14, 16, 1, 1, 18, 20, 1, 1, 22, 24,
      3, 3, 3, 3, 26, 28, 3, 3, 3, 3, 1, 30]"
  by (simp add: build_simps entry_settings_def DISTRIBUTIONS_table_def)

subsection \<open>Loading\<close>

lemma LinearWarp2D0Test_Inr:
  "LinearWarp2D0Test e = Inr f \<Longrightarrow> \<exists>d. f = Functions (sample_functor0 d) (pdf_functor0 d)"
  by (auto simp: LinearWarp2D0Test_def and_then_eq_Inr)

lemma LinearWarp2D2Test_Inr:
  "LinearWarp2D2Test e = Inr f \<Longrightarrow> \<exists>d. f = Functions (sample_functor2 d) (pdf_functor2 d)"
  by (auto simp: LinearWarp2D2Test_def and_then_eq_Inr)

lemma load_module_Inr:
  "load_module e = Inr m \<Longrightarrow>
     \<exists>f0 f2. LinearWarp2D0Test e = Inr f0 \<and> LinearWarp2D2Test e = Inr f2 \<and>
             m = module_extend (module_base (warp e)) f0 f2"
  by (auto simp: load_module_def Let_def and_then_eq_Inr)

lemma load_image_512 [simp]: "load_image env_all_512 path = Inr (const_image [512, 512, 1])"
  by (simp add: load_image_def env_all_512_def)

lemma fits_plane_512 [simp]: "fits_plane (const_image [512, 512, 1])"
  by (simp add: fits_plane_iff const_image_def)

lemma LinearWarp2D0Test_512:
  "LinearWarp2D0Test env_all_512 = Inr (Functions (sample_functor0 const_distr) (pdf_functor0 const_distr))"
  by (simp add: LinearWarp2D0Test_def) (simp add: env_all_512_def)

lemma LinearWarp2D2Test_512:
  "LinearWarp2D2Test env_all_512 = Inr (Functions (sample_functor2 const_distr) (pdf_functor2 const_distr))"
proof -
  obtain t where "make_tensor (const_image [512, 512, 1]) (const_image [512, 512, 1])
      (const_image [512, 512, 1]) (const_image [512, 512, 1]) = Inr t"
    using make_tensor_fits [OF fits_plane_512 fits_plane_512 fits_plane_512 fits_plane_512]
    by blast
  then show ?thesis
    by (simp add: LinearWarp2D2Test_def) (simp add: env_all_512_def)
qed

lemma load_module_512: "load_module env_all_512 = Inr module_512"
  by (simp add: load_module_def LinearWarp2D0Test_512 LinearWarp2D2Test_512 module_512_def)
     (simp add: env_all_512_def)

subsection \<open>The conditioned builder\<close>

text \<open>
  C8, as the code has it: \<open>LinearWarp2D2Test\<close> reads the four images \<open>img0.png\<close> to
  \<open>img3.png\<close> and writes each, squeezed, into the plane \<open>[0, 0]\<close>, \<open>[0, 1]\<close>,
  \<open>[1, 0]\<close>, \<open>[1, 1]\<close> of a tensor of shape 2 x 2 x 512 x 512, which it passes to
  \<open>Linear2D2\<close> with the parameter grid \<open>[[0, 1], [0, 1]]\<close>. Once the four images are
  read, the tensor cannot be filled, and construction fails with \<open>ValueError\<close>, exactly
  when one of them, squeezed, cannot be broadcast to a plane of 512 x 512, that is when its
  shape without the axes of length one is none of \<open>()\<close>, \<open>(512)\<close>, \<open>(512, 512)\<close>.
  The images are not compared with each other.
\<close>

theorem LinearWarp2D2Test_construction:
  assumes "load_image e (prefix @ ''img0.png'') = Inr a0"
    and "load_image e (prefix @ ''img1.png'') = Inr a1"
    and "load_image e (prefix @ ''img2.png'') = Inr a2"
    and "load_image e (prefix @ ''img3.png'') = Inr a3"
  shows "(fits_plane a0 \<and> fits_plane a1 \<and> fits_plane a2 \<and> fits_plane a3 \<longrightarrow>
            (\<exists>t. make_tensor a0 a1 a2 a3 = Inr t \<and> shape t = [2, 2, 512, 512] \<and>
                 (\<forall>y x. elem t [0, 0, y, x] = plane_value a0 y x \<and>
                        elem t [0, 1, y, x] = plane_value a1 y x \<and>
                        elem t [1, 0, y, x] = plane_value a2 y x \<and>
                        elem t [1, 1, y, x] = plane_value a3 y x) \<and>
                 LinearWarp2D2Test e =
                   and_then (Linear2D2 e t [[0, 1], [0, 1]])
                     (\<lambda>d. Inr (Functions (sample_functor2 d) (pdf_functor2 d))))) \<and>
         (\<not> (fits_plane a0 \<and> fits_plane a1 \<and> fits_plane a2 \<and> fits_plane a3) \<longrightarrow>
            LinearWarp2D2Test e = Inl ValueError) \<and>
         (\<forall>a. fits_plane a \<longleftrightarrow> filter (\<lambda>d. d \<noteq> 1) (shape a) \<in> {[], [512], [512, 512]})"
proof (intro conjI impI allI)
  assume f: "fits_plane a0 \<and> fits_plane a1 \<and> fits_plane a2 \<and> fits_plane a3"
  then obtain t where t: "make_tensor a0 a1 a2 a3 = Inr t" "shape t = [2, 2, 512, 512]"
    "\<forall>y x. elem t [0, 0, y, x] = plane_value a0 y x \<and>
           elem t [0, 1, y, x] = plane_value a1 y x \<and>
           elem t [1, 0, y, x] = plane_value a2 y x \<and>
           elem t [1, 1, y, x] = plane_value a3 y x"
    using make_tensor_fits [of a0 a1 a2 a3] by blast
  have "LinearWarp2D2Test e =
          and_then (Linear2D2 e t [[0, 1], [0, 1]])
            (\<lambda>d. Inr (Functions (sample_functor2 d) (pdf_functor2 d)))"
    using assms t(1) by (simp add: LinearWarp2D2Test_def)
  with t show "\<exists>t. make_tensor a0 a1 a2 a3 = Inr t \<and> shape t = [2, 2, 512, 512] \<and>
                 (\<forall>y x. elem t [0, 0, y, x] = plane_value a0 y x \<and>
                        elem t [0, 1, y, x] = plane_value a1 y x \<and>
                        elem t [1, 0, y, x] = plane_value a2 y x \<and>
                        elem t [1, 1, y, x] = plane_value a3 y x) \<and>
                 LinearWarp2D2Test e =
                   and_then (Linear2D2 e t [[0, 1], [0, 1]])
                     (\<lambda>d. Inr (Functions (sample_functor2 d) (pdf_functor2 d)))"
    by blast
next
  assume "\<not> (fits_plane a0 \<and> fits_plane a1 \<and> fits_plane a2 \<and> fits_plane a3)"
  then have "make_tensor a0 a1 a2 a3 = Inl ValueError"
    by (rule make_tensor_misfit)
  then show "LinearWarp2D2Test e = Inl ValueError"
    using assms by (simp add: LinearWarp2D2Test_def)
next
  fix a show "fits_plane a \<longleftrightarrow> filter (\<lambda>d. d \<noteq> 1) (shape a) \<in> {[], [512], [512, 512]}"
    by (rule fits_plane_iff)
qed

theorem LinearWarp2D2Test_construction_witness:
  "load_image env_all_512 (prefix @ ''img0.png'') = Inr (const_image [512, 512, 1]) \<and>
   load_image env_all_512 (prefix @ ''img1.png'') = Inr (const_image [512, 512, 1]) \<and>
   load_image env_all_512 (prefix @ ''img2.png'') = Inr (const_image [512, 512, 1]) \<and>
   load_image env_all_512 (prefix @ ''img3.png'') = Inr (const_image [512, 512, 1]) \<and>
   fits_plane (const_image [512, 512, 1]) \<and>
   (\<exists>t. make_tensor (const_image [512, 512, 1]) (const_image [512, 512, 1])
          (const_image [512, 512, 1]) (const_image [512, 512, 1]) = Inr t \<and>
        shape t = [2, 2, 512, 512] \<and> elem t [0, 1, 7, 9] = 1) \<and>
   load_image env_all_256 (prefix @ ''img0.png'') = Inr (const_image [256, 256, 1]) \<and>
   \<not> fits_plane (const_image [256, 256, 1]) \<and>
   LinearWarp2D2Test env_all_256 = Inl ValueError"
proof -
  let ?a = "const_image [512, 512, 1]" and ?b = "const_image [256, 256, 1]"
  have l: "\<And>p. load_image env_all_512 p = Inr ?a"
    by (rule load_image_512)
  have pv: "plane_value ?a 7 9 = 1"
    by (simp add: plane_value_def squeeze_def const_image_def)
  have l': "\<And>p. load_image env_all_256 p = Inr ?b"
    by (simp add: load_image_def env_all_256_def env_all_512_def)
  have nf: "\<not> fits_plane ?b"
    by (simp add: fits_plane_iff const_image_def)
  have f1: "fits_plane ?a"
    by (rule fits_plane_512)
  have f: "fits_plane ?a \<and> fits_plane ?a \<and> fits_plane ?a \<and> fits_plane ?a"
    using f1 by blast
  have nf4: "\<not> (fits_plane ?b \<and> fits_plane ?b \<and> fits_plane ?b \<and> fits_plane ?b)"
    using nf by simp
  from LinearWarp2D2Test_construction [OF l l l l, THEN conjunct1, rule_format, OF f]
  obtain t where t: "make_tensor ?a ?a ?a ?a = Inr t" "shape t = [2, 2, 512, 512]"
    "elem t [0, 1, 7, 9] = plane_value ?a 7 9"
    by blast
  have 1: "\<exists>t. make_tensor ?a ?a ?a ?a = Inr t \<and> shape t = [2, 2, 512, 512] \<and>
             elem t [0, 1, 7, 9] = 1"
    using t pv by simp
  have 2: "LinearWarp2D2Test env_all_256 = Inl ValueError"
    using LinearWarp2D2Test_construction [OF l' l' l' l', THEN conjunct2, THEN conjunct1] nf4
    by blast
  show ?thesis
    using 1 2 nf f1 l l' by blast
qed

text \<open>
  C8 as stated fails: with \<open>img0.png\<close> of 512 x 512 and the three other images of
  1 x 1, the sizes do not match and the construction succeeds.
\<close>

theorem unequal_sizes_accepted:
  "map_sum id shape (load_image env_unequal_sizes (prefix @ ''img0.png'')) = Inr [512, 512, 1] \<and>
   map_sum id shape (load_image env_unequal_sizes (prefix @ ''img1.png'')) = Inr [1, 1, 1] \<and>
   map_sum id shape (load_image env_unequal_sizes (prefix @ ''img2.png'')) = Inr [1, 1, 1] \<and>
   map_sum id shape (load_image env_unequal_sizes (prefix @ ''img3.png'')) = Inr [1, 1, 1] \<and>
   LinearWarp2D2Test env_unequal_sizes =
     Inr (Functions (sample_functor2 const_distr) (pdf_functor2 const_distr))"
proof -
  have l0: "load_image env_unequal_sizes (prefix @ ''img0.png'') = Inr (const_image [512, 512, 1])"
    by (simp add: load_image_def env_unequal_sizes_def env_all_512_def)
  have l1: "load_image env_unequal_sizes (prefix @ ''img1.png'') = Inr (const_image [1, 1, 1])"
    "load_image env_unequal_sizes (prefix @ ''img2.png'') = Inr (const_image [1, 1, 1])"
    "load_image env_unequal_sizes (prefix @ ''img3.png'') = Inr (const_image [1, 1, 1])"
    by (simp_all add: load_image_def env_unequal_sizes_def env_all_512_def prefix_def)
  have f1: "fits_plane (const_image [1, 1, 1])"
    by (simp add: fits_plane_iff const_image_def)
  obtain t where "make_tensor (const_image [512, 512, 1]) (const_image [1, 1, 1])
      (const_image [1, 1, 1]) (const_image [1, 1, 1]) = Inr t"
    using make_tensor_fits [OF fits_plane_512 f1 f1 f1] by blast
  then have "LinearWarp2D2Test env_unequal_sizes =
     Inr (Functions (sample_functor2 const_distr) (pdf_functor2 const_distr))"
    by (simp add: LinearWarp2D2Test_def l0 l1) (simp add: env_unequal_sizes_def env_all_512_def)
  then show ?thesis
    by (simp add: l0 l1 const_image_def)
qed

subsection \<open>Names of the registry\<close>

lemma import_names:
  "map entry_name (DISTRIBUTIONS (module_extend (module_base w) f0 f2)) =
     [''Uniform square'', ''Uniform triangle'', ''Tent function'', ''Uniform disk'',
      ''Uniform disk (concentric)'', ''Uniform sphere'', ''Uniform hemisphere'',
      ''Cosine hemisphere'', ''Uniform cone'', ''Beckmann distribution'',
      ''von Mises-Fisher distribution'', ''Rough fiber distribution'', ''Spectrum: test'',
      ''Spectrum: d65'', ''Spectrum: blackbody'', ''Microfact: Beckmann, all, 0.5'',
      ''Microfact: Beckmann, all, 0.1'', ''Microfact: Beckmann, vis, 0.5'',
      ''Microfact: Beckmann, vis, 0.1'', ''Microfact: GGX, all, 0.5'',
      ''Microfact: GGX, all, 0.1'', ''Microfact: GGX, vis, 0.5'', ''Microfact: GGX, vis, 0.1'',
      ''Diffuse BSDF'', ''Rough conductor BSDF - smooth'', ''Rough conductor BSDF - rough'',
      ''Rough conductor BSDF - rough - alternative wi'', ''Rough conductor BSDF - interactive'',
      ''Rough conductor BSDF - vis - interactive'', ''Rough plastic BSDF - rough'',
      ''Rough plastic BSDF - rough - alternative wi'', ''Plastic BSDF'',
      ''Plastic BSDF - alternative wi'', ''Hierarchical warp (small)'',
      ''Hierarchical warp (4D, big)'']"
  by (simp add: build_simps entry_name_def DISTRIBUTIONS_table_def)

text \<open>
  C4: the names of the entries of the full registry, the two hierarchical-warp entries
  included, are pairwise distinct.
\<close>

theorem names_distinct:
  "load_module e = Inr m \<Longrightarrow> distinct (map entry_name (DISTRIBUTIONS m))"
proof -
  assume "load_module e = Inr m"
  then obtain f0 f2 where m: "m = module_extend (module_base (warp e)) f0 f2"
    using load_module_Inr by blast
  show ?thesis
    unfolding m import_names by simp
qed

theorem names_distinct_witness:
  "load_module env_all_512 = Inr module_512 \<and>
   distinct (map entry_name (DISTRIBUTIONS module_512))"
  using names_distinct [OF load_module_512] load_module_512 by simp

subsection \<open>Failure of a builder\<close>

lemma load_image_small_missing:
  "load_image env_small_missing (prefix @ ''small.png'') = Inl (IOError (prefix @ ''small.png''))"
  by (simp add: load_image_def env_small_missing_def env_all_512_def)

lemma LinearWarp2D0Test_small_missing:
  "LinearWarp2D0Test env_small_missing = Inl (IOError (prefix @ ''small.png''))"
  by (simp add: LinearWarp2D0Test_def load_image_small_missing)

lemma load_image_img2_missing:
  "load_image env_img2_missing (prefix @ ''img0.png'') = Inr (const_image [512, 512, 1])"
  "load_image env_img2_missing (prefix @ ''img1.png'') = Inr (const_image [512, 512, 1])"
  "load_image env_img2_missing (prefix @ ''img2.png'') = Inl (IOError (prefix @ ''img2.png''))"
  "load_image env_img2_missing (prefix @ ''small.png'') = Inr (const_image [512, 512, 1])"
  by (simp_all add: load_image_def env_img2_missing_def env_all_512_def prefix_def)

lemma LinearWarp2D0Test_img2_missing:
  "LinearWarp2D0Test env_img2_missing =
     Inr (Functions (sample_functor0 const_distr) (pdf_functor0 const_distr))"
  by (simp add: LinearWarp2D0Test_def load_image_img2_missing)
     (simp add: env_img2_missing_def env_all_512_def)

lemma LinearWarp2D2Test_img2_missing:
  "LinearWarp2D2Test env_img2_missing = Inl (IOError (prefix @ ''img2.png''))"
  by (simp add: LinearWarp2D2Test_def load_image_img2_missing)

text \<open>
  C2, as the code has it: an exception of either builder ends the import with that
  exception, and no registry results; the registry, with all 35 entries, results exactly
  when both builders return.
\<close>

theorem import_all_or_nothing:
  "(LinearWarp2D0Test e = Inl err \<longrightarrow> load_module e = Inl err) \<and>
   (LinearWarp2D0Test e = Inr fsmall \<and> LinearWarp2D2Test e = Inl err \<longrightarrow> load_module e = Inl err) \<and>
   (LinearWarp2D0Test e = Inr fsmall \<and> LinearWarp2D2Test e = Inr fbig \<longrightarrow>
      load_module e = Inr (module_extend (module_base (warp e)) fsmall fbig) \<and>
      length (DISTRIBUTIONS (module_extend (module_base (warp e)) fsmall fbig)) = 35)"
proof -
  have "length (map entry_name (DISTRIBUTIONS (module_extend (module_base (warp e)) fsmall fbig))) = 35"
    unfolding import_names by simp
  then show ?thesis
    by (simp add: load_module_def Let_def)
qed

theorem import_all_or_nothing_witness:
  "LinearWarp2D0Test env_small_missing = Inl (IOError (prefix @ ''small.png'')) \<and>
   load_module env_small_missing = Inl (IOError (prefix @ ''small.png'')) \<and>
   LinearWarp2D0Test env_img2_missing =
     Inr (Functions (sample_functor0 const_distr) (pdf_functor0 const_distr)) \<and>
   LinearWarp2D2Test env_img2_missing = Inl (IOError (prefix @ ''img2.png'')) \<and>
   load_module env_img2_missing = Inl (IOError (prefix @ ''img2.png'')) \<and>
   LinearWarp2D0Test env_all_512 =
     Inr (Functions (sample_functor0 const_distr) (pdf_functor0 const_distr)) \<and>
   LinearWarp2D2Test env_all_512 =
     Inr (Functions (sample_functor2 const_distr) (pdf_functor2 const_distr)) \<and>
   load_module env_all_512 = Inr module_512 \<and>
   length (DISTRIBUTIONS module_512) = 35"
proof -
  have w: "warp env_all_512 = const_warp"
    by (simp add: env_all_512_def)
  have 1: "load_module env_small_missing = Inl (IOError (prefix @ ''small.png''))"
    using import_all_or_nothing [where e = env_small_missing
        and err = "IOError (prefix @ ''small.png'')"]
      LinearWarp2D0Test_small_missing by blast
  have 2: "load_module env_img2_missing = Inl (IOError (prefix @ ''img2.png''))"
    using import_all_or_nothing [where e = env_img2_missing
        and fsmall = "Functions (sample_functor0 const_distr) (pdf_functor0 const_distr)"
        and err = "IOError (prefix @ ''img2.png'')"]
      LinearWarp2D0Test_img2_missing LinearWarp2D2Test_img2_missing by blast
  have 3: "load_module env_all_512 = Inr module_512 \<and> length (DISTRIBUTIONS module_512) = 35"
    using import_all_or_nothing [where e = env_all_512
        and fsmall = "Functions (sample_functor0 const_distr) (pdf_functor0 const_distr)"
        and fbig = "Functions (sample_functor2 const_distr) (pdf_functor2 const_distr)"]
      LinearWarp2D0Test_512 LinearWarp2D2Test_512
    unfolding w module_512_def by blast
  show ?thesis
    using 1 2 3 LinearWarp2D0Test_small_missing LinearWarp2D0Test_img2_missing
      LinearWarp2D2Test_img2_missing LinearWarp2D0Test_512 LinearWarp2D2Test_512
    by blast
qed

text \<open>
  C2 as stated fails: when \<open>small.png\<close> cannot be read, \<open>LinearWarp2D0Test\<close> raises, the
  import raises with it and no entry is registered, although \<open>LinearWarp2D2Test\<close> and
  the table of lines 51 to 262 have no failure of their own.
\<close>

theorem small_missing_no_registry:
  "LinearWarp2D0Test env_small_missing = Inl (IOError ''resources/data/tests/warp/small.png'') \<and>
   LinearWarp2D2Test env_small_missing =
     Inr (Functions (sample_functor2 const_distr) (pdf_functor2 const_distr)) \<and>
   load_module env_small_missing = Inl (IOError ''resources/data/tests/warp/small.png'')"
proof -
  have l: "\<And>p. p \<noteq> prefix @ ''small.png'' \<Longrightarrow>
             load_image env_small_missing p = Inr (const_image [512, 512, 1])"
    by (simp add: load_image_def env_small_missing_def env_all_512_def)
  have li: "load_image env_small_missing (prefix @ ''img0.png'') = Inr (const_image [512, 512, 1])"
    "load_image env_small_missing (prefix @ ''img1.png'') = Inr (const_image [512, 512, 1])"
    "load_image env_small_missing (prefix @ ''img2.png'') = Inr (const_image [512, 512, 1])"
    "load_image env_small_missing (prefix @ ''img3.png'') = Inr (const_image [512, 512, 1])"
    by (rule l, simp add: prefix_def)+
  obtain t where t: "make_tensor (const_image [512, 512, 1]) (const_image [512, 512, 1])
      (const_image [512, 512, 1]) (const_image [512, 512, 1]) = Inr t"
    using make_tensor_fits [OF fits_plane_512 fits_plane_512 fits_plane_512 fits_plane_512]
    by blast
  have 2: "LinearWarp2D2Test env_small_missing =
     Inr (Functions (sample_functor2 const_distr) (pdf_functor2 const_distr))"
    using t by (simp add: LinearWarp2D2Test_def li)
      (simp add: env_small_missing_def env_all_512_def)
  have 1: "LinearWarp2D0Test env_small_missing = Inl (IOError ''resources/data/tests/warp/small.png'')"
    using LinearWarp2D0Test_small_missing by (simp add: prefix_def)
  have 3: "load_module env_small_missing = Inl (IOError ''resources/data/tests/warp/small.png'')"
    using 1 by (simp add: load_module_def Let_def)
  show ?thesis using 1 2 3 by blast
qed

subsection \<open>The hierarchical functors and the uniform square\<close>

lemma LinearWarp2D0Test_object:
  "LinearWarp2D0Test e = Inr f \<Longrightarrow>
     \<exists>img d. load_image e (prefix @ ''small.png'') = Inr img \<and>
             Linear2D0 e (squeeze img) = Inr d \<and>
             f = Functions (sample_functor0 d) (pdf_functor0 d)"
  by (auto simp: LinearWarp2D0Test_def and_then_eq_Inr)

lemma LinearWarp2D2Test_object:
  "LinearWarp2D2Test e = Inr f \<Longrightarrow>
     \<exists>tensor d. Linear2D2 e tensor [[0, 1], [0, 1]] = Inr d \<and>
                f = Functions (sample_functor2 d) (pdf_functor2 d)"
  by (auto simp: LinearWarp2D2Test_def and_then_eq_Inr)

lemma import_hierarchical:
  "drop 33 (map (\<lambda>x. (entry_name x, entry_funcs x))
              (DISTRIBUTIONS (module_extend (module_base w) f0 f2))) =
     [(''Hierarchical warp (small)'', f0), (''Hierarchical warp (4D, big)'', f2)]"
  by (simp add: build_simps entry_name_def entry_funcs_def DISTRIBUTIONS_table_def)

text \<open>
  C10: in both hierarchical-warp entries the sample functor returns component 0 of what
  the \<open>sample\<close> method of the distribution object returns (of a pair (position, density):
  the position alone), and the density functor returns what \<open>eval\<close> returns, as it is.
\<close>

theorem hierarchical_functors:
  "call (sample_functor0 d) (s # args) = and_then (call (sample d) (s # args)) getitem0 \<and>
   call (pdf_functor0 d) (p # args) = call (eval d) (p # args) \<and>
   call (sample_functor2 d) (s # args) = and_then (call (sample d) (s # args)) getitem0 \<and>
   call (pdf_functor2 d) (p # args) = call (eval d) (p # args) \<and>
   (call (sample d) (s # args) = Inr (Tuple [pos, dens]) \<longrightarrow>
      call (sample_functor0 d) (s # args) = Inr pos \<and>
      call (sample_functor2 d) (s # args) = Inr pos) \<and>
   (LinearWarp2D0Test e = Inr fsmall \<longrightarrow>
      (\<exists>img ds. load_image e (prefix @ ''small.png'') = Inr img \<and>
                Linear2D0 e (squeeze img) = Inr ds \<and>
                fsmall = Functions (sample_functor0 ds) (pdf_functor0 ds))) \<and>
   (LinearWarp2D2Test e = Inr fbig \<longrightarrow>
      (\<exists>tensor db. Linear2D2 e tensor [[0, 1], [0, 1]] = Inr db \<and>
                   fbig = Functions (sample_functor2 db) (pdf_functor2 db))) \<and>
   drop 33 (map (\<lambda>x. (entry_name x, entry_funcs x))
              (DISTRIBUTIONS (module_extend (module_base w) fsmall fbig))) =
     [(''Hierarchical warp (small)'', fsmall), (''Hierarchical warp (4D, big)'', fbig)]"
proof -
  have 1: "call (sample_functor0 d) (s # args) = and_then (call (sample d) (s # args)) getitem0"
    by (simp add: call_def accepts_def sample_functor0_def)
  have 2: "call (pdf_functor0 d) (p # args) = call (eval d) (p # args)"
    by (simp add: call_def accepts_def pdf_functor0_def)
  have 3: "call (sample_functor2 d) (s # args) = and_then (call (sample d) (s # args)) getitem0"
    by (simp add: call_def accepts_def sample_functor2_def)
  have 4: "call (pdf_functor2 d) (p # args) = call (eval d) (p # args)"
    by (simp add: call_def accepts_def pdf_functor2_def)
  have 5: "call (sample d) (s # args) = Inr (Tuple [pos, dens]) \<longrightarrow>
      call (sample_functor0 d) (s # args) = Inr pos \<and>
      call (sample_functor2 d) (s # args) = Inr pos"
    unfolding 1 3 by simp
  show ?thesis
    using 1 2 3 4 5 LinearWarp2D0Test_object [of e fsmall] LinearWarp2D2Test_object [of e fbig]
      import_hierarchical [of w fsmall fbig]
    by blast
qed

theorem hierarchical_functors_witness:
  "call (sample const_distr) [Arr2 [[1 / 4, 3 / 4]]] =
     Inr (Tuple [Arr2 [[1 / 2, 1 / 2]], Arr1 [1]]) \<and>
   call (sample_functor0 const_distr) [Arr2 [[1 / 4, 3 / 4]]] = Inr (Arr2 [[1 / 2, 1 / 2]]) \<and>
   call (sample_functor2 const_distr) [Arr2 [[1 / 4, 3 / 4]]] = Inr (Arr2 [[1 / 2, 1 / 2]]) \<and>
   LinearWarp2D0Test env_all_512 =
     Inr (Functions (sample_functor0 const_distr) (pdf_functor0 const_distr)) \<and>
   LinearWarp2D2Test env_all_512 =
     Inr (Functions (sample_functor2 const_distr) (pdf_functor2 const_distr)) \<and>
   (\<exists>ds. Linear2D0 env_all_512 (squeeze (const_image [512, 512, 1])) = Inr ds \<and>
         Functions (sample_functor0 const_distr) (pdf_functor0 const_distr) =
           Functions (sample_functor0 ds) (pdf_functor0 ds)) \<and>
   (\<exists>tensor db. Linear2D2 env_all_512 tensor [[0, 1], [0, 1]] = Inr db \<and>
         Functions (sample_functor2 const_distr) (pdf_functor2 const_distr) =
           Functions (sample_functor2 db) (pdf_functor2 db))"
proof -
  have c: "call (sample const_distr) [Arr2 [[1 / 4, 3 / 4]]] =
     Inr (Tuple [Arr2 [[1 / 2, 1 / 2]], Arr1 [1]])"
    by (simp add: call_def accepts_def const_distr_def)
  note h = hierarchical_functors [where d = const_distr and s = "Arr2 [[1 / 4, 3 / 4]]"
      and args = "[]" and pos = "Arr2 [[1 / 2, 1 / 2]]" and dens = "Arr1 [1]"
      and e = env_all_512
      and fsmall = "Functions (sample_functor0 const_distr) (pdf_functor0 const_distr)"
      and fbig = "Functions (sample_functor2 const_distr) (pdf_functor2 const_distr)"]
  have li: "load_image env_all_512 (prefix @ ''small.png'') = Inr (const_image [512, 512, 1])"
    by (rule load_image_512)
  have f: "call (sample_functor0 const_distr) [Arr2 [[1 / 4, 3 / 4]]] = Inr (Arr2 [[1 / 2, 1 / 2]]) \<and>
      call (sample_functor2 const_distr) [Arr2 [[1 / 4, 3 / 4]]] = Inr (Arr2 [[1 / 2, 1 / 2]])"
    using h c by blast
  have o0: "\<exists>img ds. load_image env_all_512 (prefix @ ''small.png'') = Inr img \<and>
         Linear2D0 env_all_512 (squeeze img) = Inr ds \<and>
         Functions (sample_functor0 const_distr) (pdf_functor0 const_distr) =
           Functions (sample_functor0 ds) (pdf_functor0 ds)"
    using h LinearWarp2D0Test_512 by blast
  have o0': "\<exists>ds. Linear2D0 env_all_512 (squeeze (const_image [512, 512, 1])) = Inr ds \<and>
         Functions (sample_functor0 const_distr) (pdf_functor0 const_distr) =
           Functions (sample_functor0 ds) (pdf_functor0 ds)"
    using o0 unfolding li by blast
  have o2: "\<exists>tensor db. Linear2D2 env_all_512 tensor [[0, 1], [0, 1]] = Inr db \<and>
         Functions (sample_functor2 const_distr) (pdf_functor2 const_distr) =
           Functions (sample_functor2 db) (pdf_functor2 db)"
    using h LinearWarp2D2Test_512 by blast
  show ?thesis
    using c f o0' o2 LinearWarp2D0Test_512 LinearWarp2D2Test_512 by blast
qed

text \<open>
  C3, as the code has it: the density function of \<open>Uniform square\<close> returns 1 for every
  point of its input, inside the rectangle or outside it; it does not look at the point.
\<close>

theorem uniform_square_density_one:
  "find (\<lambda>x. entry_name x = ''Uniform square'')
        (DISTRIBUTIONS (module_extend (module_base w) f0 f2)) =
     Some (''Uniform square'', PlanarDomain (Some [[0, 1], [0, 1]]),
           Functions uniform_square_sample uniform_square_density, 1) \<and>
   call uniform_square_density [Arr2 pts] = Inr (Arr1 (replicate (length pts) 1))"
proof -
  have "find (\<lambda>x. entry_name x = ''Uniform square'')
        (DISTRIBUTIONS (module_extend (module_base w) f0 f2)) =
     Some (''Uniform square'', PlanarDomain (Some [[0, 1], [0, 1]]),
           Functions uniform_square_sample uniform_square_density, 1)"
    by (simp add: build_simps DISTRIBUTIONS_table_def entry_name_def unit_square_def)
  moreover have "call uniform_square_density [Arr2 pts] = Inr (Arr1 (replicate (length pts) 1))"
    by (simp add: call_def accepts_def uniform_square_density_def np_ones_def)
  ultimately show ?thesis by blast
qed

text \<open>
  C3 as stated fails: the point (2, 2) lies outside the rectangle of \<open>Uniform square\<close>,
  and the density function of the entry returns 1 there, not 0.
\<close>

theorem uniform_square_density_outside:
  "find (\<lambda>x. entry_name x = ''Uniform square'') (DISTRIBUTIONS module_512) =
     Some (''Uniform square'', PlanarDomain (Some [[0, 1], [0, 1]]),
           Functions uniform_square_sample uniform_square_density, 1) \<and>
   \<not> (2 :: real) \<le> 1 \<and>
   call uniform_square_density [Arr2 [[2, 2]]] = Inr (Arr1 [1])"
proof -
  have "find (\<lambda>x. entry_name x = ''Uniform square'') (DISTRIBUTIONS module_512) =
     Some (''Uniform square'', PlanarDomain (Some [[0, 1], [0, 1]]),
           Functions uniform_square_sample uniform_square_density, 1)"
    by (simp add: module_512_def build_simps DISTRIBUTIONS_table_def entry_name_def
        unit_square_def)
  moreover have "call uniform_square_density [Arr2 [[2, 2]]] = Inr (Arr1 [1])"
    by (simp add: call_def accepts_def uniform_square_density_def np_ones_def)
  ultimately show ?thesis by simp
qed

subsection \<open>Defaults and dimensions\<close>

lemma import_length: "length (DISTRIBUTIONS (module_extend (module_base w) f0 f2)) = 35"
proof -
  have "length (map entry_name (DISTRIBUTIONS (module_extend (module_base w) f0 f2))) = 35"
    unfolding import_names by simp
  then show ?thesis by simp
qed

lemma import_skeleton:
  "map (\<lambda>x. (entry_domain x, is_bsdf (entry_funcs x), entry_settings x))
       (DISTRIBUTIONS (module_extend (module_base w) (Functions s0 p0) (Functions s2 p2))) =
     [(PlanarDomain (Some unit_square), False, 1), (PlanarDomain (Some unit_square), False, 4),
      (PlanarDomain (Some [[- 1, 1], [- 1, 1]]), False, 1),
      (PlanarDomain None, False, 1), (PlanarDomain None, False, 1),
      (SphericalDomain, False, 1), (SphericalDomain, False, 1), (SphericalDomain, False, 1),
      (SphericalDomain, False, 6), (SphericalDomain, False, 8), (SphericalDomain, False, 10),
      (SphericalDomain, False, 12),
      (LineDomain [300, 700], False, 13), (LineDomain [360, 830], False, 14),
      (LineDomain [360, 830], False, 16),
      (SphericalDomain, False, 1), (SphericalDomain, False, 1), (SphericalDomain, False, 18),
      (SphericalDomain, False, 20), (SphericalDomain, False, 1), (SphericalDomain, False, 1),
      (SphericalDomain, False, 22), (SphericalDomain, False, 24),
      (SphericalDomain, True, 3), (SphericalDomain, True, 3), (SphericalDomain, True, 3),
      (SphericalDomain, True, 3), (SphericalDomain, True, 26), (SphericalDomain, True, 28),
      (SphericalDomain, True, 3), (SphericalDomain, True, 3), (SphericalDomain, True, 3),
      (SphericalDomain, True, 3),
      (PlanarDomain (Some [[0, 1], [0, 1]]), False, 1),
      (PlanarDomain (Some [[0, 1], [0, 1]]), False, 30)]"
  by (simp add: build_simps entry_domain_def entry_funcs_def entry_settings_def
      DISTRIBUTIONS_table_def)

lemma load_module_shape:
  assumes "load_module e = Inr m"
  obtains s0 p0 s2 p2 where
    "m = module_extend (module_base (warp e)) (Functions s0 p0) (Functions s2 p2)"
proof -
  obtain f0 f2 where f: "LinearWarp2D0Test e = Inr f0" "LinearWarp2D2Test e = Inr f2"
    "m = module_extend (module_base (warp e)) f0 f2"
    using load_module_Inr [OF assms] by blast
  from LinearWarp2D0Test_Inr [OF f(1)] LinearWarp2D2Test_Inr [OF f(2)] f(3) that
  show thesis by blast
qed

lemmas read_simps = parameters_of_def read_key_def read_int_def read_list_def dict_items_def
  lookup_def settings_obj_def

text \<open>
  C5: for every entry of the registry and every parameter \<open>(label, [min, max, default])\<close>
  of its settings, the default lies in the range: min \<le> default \<le> max.
\<close>

theorem defaults_within_range:
  assumes "load_module e = Inr m" and "x \<in> set (DISTRIBUTIONS m)"
  shows "\<exists>ps. parameters_of (heap m) (entry_settings x) = Some ps \<and>
              (\<forall>p \<in> set ps. \<exists>mn mx df. snd p = [mn, mx, df] \<and> mn \<le> df \<and> df \<le> mx)"
proof -
  obtain f0 f2 where m: "m = module_extend (module_base (warp e)) f0 f2"
    using load_module_Inr [OF assms(1)] by blast
  have "list_all (\<lambda>a. case parameters_of (heap m) a of
                         Some ps \<Rightarrow> list_all param_in_range ps | None \<Rightarrow> False)
          (map entry_settings (DISTRIBUTIONS m))"
    unfolding m import_settings import_heap
    by (simp add: read_simps param_in_range_def angle_of_incidence_def
        interactive_parameters_def)
  then have "list_all (defaults_in_range (heap m)) (DISTRIBUTIONS m)"
    by (simp add: list_all_iff defaults_in_range_def)
  with assms(2) have "defaults_in_range (heap m) x"
    by (simp add: list_all_iff)
  then obtain ps where ps: "parameters_of (heap m) (entry_settings x) = Some ps"
    "list_all param_in_range ps"
    by (auto simp: defaults_in_range_def split: option.splits)
  have "\<exists>mn mx df. snd p = [mn, mx, df] \<and> mn \<le> df \<and> df \<le> mx" if "p \<in> set ps" for p
  proof -
    from ps(2) that have "param_in_range p"
      by (simp add: list_all_iff)
    then show ?thesis
      by (auto simp: param_in_range_def split: list.splits)
  qed
  with ps(1) show ?thesis by blast
qed

theorem defaults_within_range_witness:
  "load_module env_all_512 = Inr module_512 \<and>
   DISTRIBUTIONS module_512 ! 8 \<in> set (DISTRIBUTIONS module_512) \<and>
   entry_name (DISTRIBUTIONS module_512 ! 8) = ''Uniform cone'' \<and>
   parameters_of (heap module_512) (entry_settings (DISTRIBUTIONS module_512 ! 8)) =
     Some [(''Cutoff angle'', [1 / 10000, 180, 20])] \<and>
   (\<exists>ps. parameters_of (heap module_512) (entry_settings (DISTRIBUTIONS module_512 ! 8)) = Some ps \<and>
         (\<forall>p \<in> set ps. \<exists>mn mx df. snd p = [mn, mx, df] \<and> mn \<le> df \<and> df \<le> mx))"
proof -
  have len: "length (DISTRIBUTIONS module_512) = 35"
    unfolding module_512_def by (rule import_length)
  then have mem: "DISTRIBUTIONS module_512 ! 8 \<in> set (DISTRIBUTIONS module_512)"
    by simp
  have "map entry_name (DISTRIBUTIONS module_512) ! 8 = ''Uniform cone''"
    unfolding module_512_def import_names by simp
  then have n: "entry_name (DISTRIBUTIONS module_512 ! 8) = ''Uniform cone''"
    using len by simp
  have "map entry_settings (DISTRIBUTIONS module_512) ! 8 = 6"
    unfolding module_512_def import_settings by simp
  then have a: "entry_settings (DISTRIBUTIONS module_512 ! 8) = 6"
    using len by simp
  have p: "parameters_of (heap module_512) 6 = Some [(''Cutoff angle'', [1 / 10000, 180, 20])]"
    unfolding module_512_def import_heap by (simp add: read_simps)
  from defaults_within_range [OF load_module_512 mem] load_module_512 mem n p a
  show ?thesis by simp
qed

text \<open>
  C6: for every entry of the registry the domain goes with the \<open>sample_dim\<close> of its
  settings: 1 for a \<open>LineDomain\<close>, 2 for a \<open>PlanarDomain\<close>, 2 or 3 for a
  \<open>SphericalDomain\<close>, and 3 for every entry built by a BSDF adapter.
\<close>

theorem domain_matches_sample_dim:
  assumes "load_module e = Inr m" and "x \<in> set (DISTRIBUTIONS m)"
  shows "\<exists>d. read_int (heap m) (entry_settings x) ''sample_dim'' = Some d \<and>
             (case entry_domain x of
                LineDomain r \<Rightarrow> d = 1
              | PlanarDomain b \<Rightarrow> d = 2
              | SphericalDomain \<Rightarrow> d = 2 \<or> d = 3) \<and>
             (is_bsdf (entry_funcs x) \<longrightarrow> d = 3)"
proof -
  obtain s0 p0 s2 p2 where
    m: "m = module_extend (module_base (warp e)) (Functions s0 p0) (Functions s2 p2)"
    using load_module_shape [OF assms(1)] by blast
  let ?ok = "\<lambda>dm b a. case read_int (heap m) a ''sample_dim'' of
                         Some d \<Rightarrow> dim_matches dm d \<and> (b \<longrightarrow> d = 3) | None \<Rightarrow> False"
  have "list_all (\<lambda>t. case t of (dm, b, a) \<Rightarrow> ?ok dm b a)
          (map (\<lambda>x. (entry_domain x, is_bsdf (entry_funcs x), entry_settings x))
               (DISTRIBUTIONS m))"
    unfolding m import_skeleton import_heap
    by (simp add: read_simps)
  then have "list_all (\<lambda>x. ?ok (entry_domain x) (is_bsdf (entry_funcs x)) (entry_settings x))
               (DISTRIBUTIONS m)"
    by (simp add: list.pred_map comp_def)
  with assms(2) have "?ok (entry_domain x) (is_bsdf (entry_funcs x)) (entry_settings x)"
    by (simp add: list_all_iff)
  then show ?thesis
    by (cases "entry_domain x") (auto split: option.splits)
qed

theorem domain_matches_sample_dim_witness:
  "load_module env_all_512 = Inr module_512 \<and>
   DISTRIBUTIONS module_512 ! 12 \<in> set (DISTRIBUTIONS module_512) \<and>
   entry_name (DISTRIBUTIONS module_512 ! 12) = ''Spectrum: test'' \<and>
   entry_domain (DISTRIBUTIONS module_512 ! 12) = LineDomain [300, 700] \<and>
   read_int (heap module_512) (entry_settings (DISTRIBUTIONS module_512 ! 12)) ''sample_dim'' =
     Some 1"
proof -
  have len: "length (DISTRIBUTIONS module_512) = 35"
    unfolding module_512_def by (rule import_length)
  then have mem: "DISTRIBUTIONS module_512 ! 12 \<in> set (DISTRIBUTIONS module_512)"
    by simp
  have "map entry_name (DISTRIBUTIONS module_512) ! 12 = ''Spectrum: test''"
    unfolding module_512_def import_names by simp
  then have n: "entry_name (DISTRIBUTIONS module_512 ! 12) = ''Spectrum: test''"
    using len by simp
  have "map (\<lambda>x. (entry_domain x, is_bsdf (entry_funcs x), entry_settings x))
          (DISTRIBUTIONS module_512) ! 12 = (LineDomain [300, 700], False, 13)"
    unfolding module_512_def import_skeleton by simp
  then have d: "entry_domain (DISTRIBUTIONS module_512 ! 12) = LineDomain [300, 700]"
    using len by simp
  from domain_matches_sample_dim [OF load_module_512 mem] d
  have "read_int (heap module_512) (entry_settings (DISTRIBUTIONS module_512 ! 12))
          ''sample_dim'' = Some 1"
    by auto
  with load_module_512 mem n d show ?thesis by simp
qed

subsection \<open>The Beckmann entry\<close>

lemma beckmann_expr: "exp (ln 0.05 * (1 - v) + ln 1 * v) = (0.05::real) powr (1 - v)"
  by (simp add: powr_def mult.commute)

lemma beckmann_range:
  assumes "0 \<le> v" and "v \<le> 1"
  shows "0.05 \<le> (0.05::real) powr (1 - v) \<and> (0.05::real) powr (1 - v) \<le> 1"
proof
  have "(0.05::real) powr 1 \<le> 0.05 powr (1 - v)"
    using assms by (intro powr_mono') simp_all
  then show "0.05 \<le> (0.05::real) powr (1 - v)"
    by simp
  show "(0.05::real) powr (1 - v) \<le> 1"
    using assms by (intro powr_le1) simp_all
qed

lemma beckmann_default:
  "0.05 < (0.05::real) powr (1 - 0.6) \<and> (0.05::real) powr (1 - 0.6) < 1"
proof
  have "(0.05::real) powr 1 < 0.05 powr (1 - 0.6)"
    by (intro powr_less_mono') simp_all
  then show "0.05 < (0.05::real) powr (1 - 0.6)"
    by simp
  show "(0.05::real) powr (1 - 0.6) < 1"
    by (subst powr01_less_one) simp_all
qed

lemma import_beckmann:
  "find (\<lambda>x. entry_name x = ''Beckmann distribution'')
        (DISTRIBUTIONS (module_extend (module_base w) f0 f2)) =
     Some (''Beckmann distribution'', SphericalDomain,
           Functions (beckmann_sample w) (beckmann_density w), 8)"
  by (simp add: build_simps DISTRIBUTIONS_table_def entry_name_def)

lemma import_beckmann_parameters:
  "parameters_of (heap (module_extend (module_base w) f0 f2)) 8 =
     Some [(''Roughness'', [0, 1, 0.6])]"
  unfolding import_heap by (simp add: read_simps)

text \<open>
  C9: in the entry \<open>Beckmann distribution\<close> the sample function and the density function
  pass the same roughness \<open>exp (log 0.05 * (1 - v) + log 1 * v) = 0.05 ^ (1 - v)\<close> to the
  warp, for the value \<open>v\<close> of the parameter \<open>Roughness\<close>; for \<open>v\<close> in [0, 1] it lies in
  [0.05, 1], and for the default 0.6 strictly between 0.05 and 1.
\<close>

theorem beckmann_same_roughness:
  "find (\<lambda>x. entry_name x = ''Beckmann distribution'')
        (DISTRIBUTIONS (module_extend (module_base w) f0 f2)) =
     Some (''Beckmann distribution'', SphericalDomain,
           Functions (beckmann_sample w) (beckmann_density w), 8) \<and>
   parameters_of (heap (module_extend (module_base w) f0 f2)) 8 =
     Some [(''Roughness'', [0, 1, 0.6])] \<and>
   call (beckmann_sample w) [s, Num v] =
     call (w ''square_to_beckmann'') [s, Num (0.05 powr (1 - v))] \<and>
   call (beckmann_density w) [p, Num v] =
     call (w ''square_to_beckmann_pdf'') [p, Num (0.05 powr (1 - v))] \<and>
   exp (ln 0.05 * (1 - v) + ln 1 * v) = (0.05::real) powr (1 - v) \<and>
   (0 \<le> v \<and> v \<le> 1 \<longrightarrow> 0.05 \<le> (0.05::real) powr (1 - v) \<and> (0.05::real) powr (1 - v) \<le> 1) \<and>
   0.05 < (0.05::real) powr (1 - 0.6) \<and> (0.05::real) powr (1 - 0.6) < 1"
proof -
  have 1: "call (beckmann_sample w) [s, Num v] =
     call (w ''square_to_beckmann'') [s, Num (0.05 powr (1 - v))]"
  proof -
    have "call (beckmann_sample w) [s, Num v] = body (beckmann_sample w) [s, Num v]"
      by (simp add: call_def accepts_def beckmann_sample_def)
    also have "\<dots> = call (w ''square_to_beckmann'') [s, Num (0.05 powr (1 - v))]"
      by (simp add: beckmann_sample_def powr_def mult.commute)
    finally show ?thesis .
  qed
  have 2: "call (beckmann_density w) [p, Num v] =
     call (w ''square_to_beckmann_pdf'') [p, Num (0.05 powr (1 - v))]"
  proof -
    have "call (beckmann_density w) [p, Num v] = body (beckmann_density w) [p, Num v]"
      by (simp add: call_def accepts_def beckmann_density_def)
    also have "\<dots> = call (w ''square_to_beckmann_pdf'') [p, Num (0.05 powr (1 - v))]"
      by (simp add: beckmann_density_def powr_def mult.commute)
    finally show ?thesis .
  qed
  show ?thesis
    using 1 2 import_beckmann [of w f0 f2] import_beckmann_parameters [of w f0 f2]
      beckmann_range [of v] beckmann_default beckmann_expr [of v]
    by blast
qed

theorem beckmann_same_roughness_witness:
  "(0::real) \<le> 1 / 2 \<and> (1 / 2 :: real) \<le> 1 \<and>
   0.05 \<le> (0.05::real) powr (1 - 1 / 2) \<and> (0.05::real) powr (1 - 1 / 2) \<le> 1 \<and>
   call (beckmann_sample const_warp) [Arr2 [[1 / 4, 3 / 4]], Num (1 / 2)] =
     call (const_warp ''square_to_beckmann'') [Arr2 [[1 / 4, 3 / 4]], Num (0.05 powr (1 - 1 / 2))]"
proof -
  have h: "(0::real) \<le> 1 / 2 \<and> (1 / 2 :: real) \<le> 1"
    by simp
  note t = beckmann_same_roughness [where v = "1 / 2" and w = const_warp
      and s = "Arr2 [[1 / 4, 3 / 4]]"]
  from t h have "0.05 \<le> (0.05::real) powr (1 - 1 / 2) \<and> (0.05::real) powr (1 - 1 / 2) \<le> 1"
    by blast
  moreover from t have "call (beckmann_sample const_warp) [Arr2 [[1 / 4, 3 / 4]], Num (1 / 2)] =
     call (const_warp ''square_to_beckmann'') [Arr2 [[1 / 4, 3 / 4]], Num (0.05 powr (1 - 1 / 2))]"
    by blast
  ultimately show ?thesis using h by blast
qed

subsection \<open>Arity of the functions of the table\<close>

lemma exact_arity_call:
  "exact_arity f k \<Longrightarrow> length args \<noteq> Suc k \<Longrightarrow> call f args = Inl TypeError"
  by (simp add: exact_arity_def call_def accepts_def)

lemma import_direct:
  "map (\<lambda>x. (entry_name x, entry_funcs x, entry_settings x))
       (filter (\<lambda>x. is_functions (entry_funcs x))
          (take 33 (DISTRIBUTIONS (module_extend (module_base w) f0 f2)))) =
     [(''Uniform square'', Functions uniform_square_sample uniform_square_density, 1),
      (''Uniform triangle'',
       Functions (w ''square_to_uniform_triangle'') (w ''square_to_uniform_triangle_pdf''), 4),
      (''Tent function'', Functions (w ''square_to_tent'') (w ''square_to_tent_pdf''), 1),
      (''Uniform disk'',
       Functions (w ''square_to_uniform_disk'') (w ''square_to_uniform_disk_pdf''), 1),
      (''Uniform disk (concentric)'',
       Functions (w ''square_to_uniform_disk_concentric'')
                 (w ''square_to_uniform_disk_concentric_pdf''), 1),
      (''Uniform sphere'',
       Functions (w ''square_to_uniform_sphere'') (w ''square_to_uniform_sphere_pdf''), 1),
      (''Uniform hemisphere'',
       Functions (w ''square_to_uniform_hemisphere'') (w ''square_to_uniform_hemisphere_pdf''), 1),
      (''Cosine hemisphere'',
       Functions (w ''square_to_cosine_hemisphere'') (w ''square_to_cosine_hemisphere_pdf''), 1),
      (''Uniform cone'', Functions (uniform_cone_sample w) (uniform_cone_density w), 6),
      (''Beckmann distribution'', Functions (beckmann_sample w) (beckmann_density w), 8),
      (''von Mises-Fisher distribution'',
       Functions (w ''square_to_von_mises_fisher'') (w ''square_to_von_mises_fisher_pdf''), 10),
      (''Rough fiber distribution'',
       Functions (rough_fiber_sample w) (rough_fiber_density w), 12)]"
  by (simp add: build_simps DISTRIBUTIONS_table_def entry_name_def entry_funcs_def
      entry_settings_def)

lemma lambda_arities:
  "exact_arity uniform_square_sample 0" "exact_arity uniform_square_density 0"
  "exact_arity (uniform_cone_sample w) (Suc 0)" "exact_arity (uniform_cone_density w) (Suc 0)"
  "exact_arity (beckmann_sample w) (Suc 0)" "exact_arity (beckmann_density w) (Suc 0)"
  "exact_arity (rough_fiber_sample w) (Suc (Suc 0))"
  "exact_arity (rough_fiber_density w) (Suc (Suc 0))"
  by (simp_all add: exact_arity_def uniform_square_sample_def uniform_square_density_def
      uniform_cone_sample_def uniform_cone_density_def beckmann_sample_def beckmann_density_def
      rough_fiber_sample_def rough_fiber_density_def)

lemma import_direct_parameters:
  "parameters_of (heap (module_extend (module_base w) f0 f2)) 1 = Some []"
  "parameters_of (heap (module_extend (module_base w) f0 f2)) 4 = Some []"
  "parameters_of (heap (module_extend (module_base w) f0 f2)) 6 =
     Some [(''Cutoff angle'', [1 / 10000, 180, 20])]"
  "parameters_of (heap (module_extend (module_base w) f0 f2)) 8 =
     Some [(''Roughness'', [0, 1, 0.6])]"
  "parameters_of (heap (module_extend (module_base w) f0 f2)) 10 =
     Some [(''Concentration'', [0, 100, 10])]"
  "parameters_of (heap (module_extend (module_base w) f0 f2)) 12 =
     Some [(''Concentration'', [0, 500, 10]), (''Inclination'', [0, 90, 20])]"
  unfolding import_heap by (simp_all add: read_simps)

lemma rough_fiber_sample_call:
  "call (rough_fiber_sample w) [Arr2 u, Num k, Num i] =
     call (w ''square_to_rough_fiber'')
       [Arr2 u, np_tile [sin (i * pi / 180), 0, cos (i * pi / 180)] (length u),
        np_tile [1, 0, 0] (length u), Num k]"
proof -
  have "call (rough_fiber_sample w) [Arr2 u, Num k, Num i] =
          body (rough_fiber_sample w) [Arr2 u, Num k, Num i]"
    by (simp add: call_def accepts_def rough_fiber_sample_def)
  also have "\<dots> = call (w ''square_to_rough_fiber'')
       [Arr2 u, np_tile [sin (i * pi / 180), 0, cos (i * pi / 180)] (length u),
        np_tile [1, 0, 0] (length u), Num k]"
    by (simp add: rough_fiber_sample_def deg2rad_def)
  finally show ?thesis .
qed

lemma rough_fiber_density_call:
  "call (rough_fiber_density w) [Arr2 u, Num k, Num i] =
     call (w ''square_to_rough_fiber_pdf'')
       [Arr2 u, np_tile [sin (i * pi / 180), 0, cos (i * pi / 180)] (length u),
        np_tile [1, 0, 0] (length u), Num k]"
proof -
  have "call (rough_fiber_density w) [Arr2 u, Num k, Num i] =
          body (rough_fiber_density w) [Arr2 u, Num k, Num i]"
    by (simp add: call_def accepts_def rough_fiber_density_def)
  also have "\<dots> = call (w ''square_to_rough_fiber_pdf'')
       [Arr2 u, np_tile [sin (i * pi / 180), 0, cos (i * pi / 180)] (length u),
        np_tile [1, 0, 0] (length u), Num k]"
    by (simp add: rough_fiber_density_def deg2rad_def)
  finally show ?thesis .
qed

lemma warp_conforms_const: "warp_conforms const_warp"
  by (simp add: warp_conforms_def warp_signatures_def exact_arity_def const_warp_def)

text \<open>
  C7: every entry of the table whose third component is a pair of functions (the lambdas
  and the routines of \<open>warp\<close> used as they are) has a sample function and a density
  function that accept, after their first argument, exactly as many positional arguments
  as the settings of the entry declare parameters; the routines of \<open>warp\<close> used as they
  are have the signatures \<open>warp_signatures\<close>. With two parameters (\<open>Rough fiber
  distribution\<close>), both lambdas take them in the declared order: the concentration, then
  the inclination. For the four entries written as lambdas this needs nothing about
  \<open>warp\<close>.
\<close>

theorem direct_entries_arity:
  assumes "x \<in> set (filter (\<lambda>x. is_functions (entry_funcs x))
                    (take 33 (DISTRIBUTIONS (module_extend (module_base w) f0 f2))))"
    and "warp_conforms w \<or>
         entry_name x \<in> {''Uniform square'', ''Uniform cone'', ''Beckmann distribution'',
                          ''Rough fiber distribution''}"
  shows "(\<exists>s p ps. entry_funcs x = Functions s p \<and>
            parameters_of (heap (module_extend (module_base w) f0 f2)) (entry_settings x) =
              Some ps \<and>
            (\<forall>n. accepts s n \<longleftrightarrow> n = Suc (length ps)) \<and>
            (\<forall>n. accepts p n \<longleftrightarrow> n = Suc (length ps))) \<and>
         tl (formals (rough_fiber_sample w)) = [''kappa'', ''incl''] \<and>
         tl (formals (rough_fiber_density w)) = [''kappa'', ''incl''] \<and>
         map_option (map fst) (parameters_of (heap (module_extend (module_base w) f0 f2)) 12) =
           Some [''Concentration'', ''Inclination''] \<and>
         call (rough_fiber_sample w) [Arr2 u, Num k, Num i] =
           call (w ''square_to_rough_fiber'')
             [Arr2 u, np_tile [sin (i * pi / 180), 0, cos (i * pi / 180)] (length u),
              np_tile [1, 0, 0] (length u), Num k] \<and>
         call (rough_fiber_density w) [Arr2 u, Num k, Num i] =
           call (w ''square_to_rough_fiber_pdf'')
             [Arr2 u, np_tile [sin (i * pi / 180), 0, cos (i * pi / 180)] (length u),
              np_tile [1, 0, 0] (length u), Num k]"
proof -
  let ?M = "module_extend (module_base w) f0 f2"
  let ?D = "filter (\<lambda>x. is_functions (entry_funcs x)) (take 33 (DISTRIBUTIONS ?M))"
  let ?L = "{''Uniform square'', ''Uniform cone'', ''Beckmann distribution'',
             ''Rough fiber distribution''}"
  let ?Q = "\<lambda>f a. (case f of
                 Functions s p \<Rightarrow>
                   (case parameters_of (heap ?M) a of
                      Some ps \<Rightarrow> exact_arity s (length ps) \<and> exact_arity p (length ps)
                    | None \<Rightarrow> False)
               | _ \<Rightarrow> False)"
  have q: "?Q (entry_funcs x) (entry_settings x)"
  proof (cases "warp_conforms w")
    case True
    then have ws: "list_all (\<lambda>nk. exact_arity (w (fst nk)) (snd nk)) warp_signatures"
      by (simp add: warp_conforms_def)
    have "list_all (\<lambda>t. case t of (n, f, a) \<Rightarrow> ?Q f a)
            (map (\<lambda>x. (entry_name x, entry_funcs x, entry_settings x)) ?D)"
      unfolding import_direct
      using ws by (simp add: warp_signatures_def lambda_arities import_direct_parameters
          import_direct_parameters(1) [unfolded One_nat_def])
    then have "list_all (\<lambda>x. ?Q (entry_funcs x) (entry_settings x)) ?D"
      by (simp add: list.pred_map comp_def)
    with assms(1) show ?thesis
      unfolding list_all_iff by blast
  next
    case False
    with assms(2) have n: "entry_name x \<in> ?L"
      by blast
    have "list_all (\<lambda>t. case t of (n, f, a) \<Rightarrow> n \<in> ?L \<longrightarrow> ?Q f a)
            (map (\<lambda>x. (entry_name x, entry_funcs x, entry_settings x)) ?D)"
      unfolding import_direct
      by (simp add: lambda_arities import_direct_parameters
          import_direct_parameters(1) [unfolded One_nat_def])
    then have "list_all (\<lambda>x. entry_name x \<in> ?L \<longrightarrow> ?Q (entry_funcs x) (entry_settings x)) ?D"
      by (simp add: list.pred_map comp_def)
    with assms(1) n show ?thesis
      unfolding list_all_iff by blast
  qed
  then obtain s p ps where e: "entry_funcs x = Functions s p"
    "parameters_of (heap ?M) (entry_settings x) = Some ps"
    "exact_arity s (length ps)" "exact_arity p (length ps)"
    by (auto split: funcs.splits option.splits)
  have 1: "\<exists>s p ps. entry_funcs x = Functions s p \<and>
            parameters_of (heap ?M) (entry_settings x) = Some ps \<and>
            (\<forall>n. accepts s n \<longleftrightarrow> n = Suc (length ps)) \<and>
            (\<forall>n. accepts p n \<longleftrightarrow> n = Suc (length ps))"
    using e exact_arity_accepts [OF e(3)] exact_arity_accepts [OF e(4)] by blast
  have 2: "tl (formals (rough_fiber_sample w)) = [''kappa'', ''incl'']"
    "tl (formals (rough_fiber_density w)) = [''kappa'', ''incl'']"
    by (simp_all add: rough_fiber_sample_def rough_fiber_density_def)
  have 3: "map_option (map fst) (parameters_of (heap ?M) 12) =
             Some [''Concentration'', ''Inclination'']"
    by (simp add: import_direct_parameters)
  show ?thesis
    using 1 2 3 rough_fiber_sample_call [of w u k i] rough_fiber_density_call [of w u k i]
    by blast
qed

theorem direct_entries_arity_witness:
  "warp_conforms const_warp \<and>
   DISTRIBUTIONS module_512 ! 10 \<in>
     set (filter (\<lambda>x. is_functions (entry_funcs x)) (take 33 (DISTRIBUTIONS module_512))) \<and>
   entry_name (DISTRIBUTIONS module_512 ! 10) = ''von Mises-Fisher distribution'' \<and>
   (\<exists>s p ps. entry_funcs (DISTRIBUTIONS module_512 ! 10) = Functions s p \<and>
      parameters_of (heap module_512) (entry_settings (DISTRIBUTIONS module_512 ! 10)) = Some ps \<and>
      (\<forall>n. accepts s n \<longleftrightarrow> n = Suc (length ps)) \<and>
      (\<forall>n. accepts p n \<longleftrightarrow> n = Suc (length ps)))"
proof -
  let ?x = "DISTRIBUTIONS module_512 ! 10"
  have len: "length (DISTRIBUTIONS module_512) = 35"
    unfolding module_512_def by (rule import_length)
  have "map entry_name (DISTRIBUTIONS module_512) ! 10 = ''von Mises-Fisher distribution''"
    unfolding module_512_def import_names by simp
  then have n: "entry_name ?x = ''von Mises-Fisher distribution''"
    using len by simp
  have "(entry_name ?x, entry_funcs ?x, entry_settings ?x) \<in>
          set (map (\<lambda>x. (entry_name x, entry_funcs x, entry_settings x))
                 (filter (\<lambda>x. is_functions (entry_funcs x)) (take 33 (DISTRIBUTIONS module_512))))"
  proof -
    have "map (\<lambda>x. (entry_name x, entry_funcs x)) (DISTRIBUTIONS module_512) ! 10 =
            (''von Mises-Fisher distribution'',
             Functions (const_warp ''square_to_von_mises_fisher'')
                       (const_warp ''square_to_von_mises_fisher_pdf''))"
      unfolding module_512_def
      by (simp add: build_simps DISTRIBUTIONS_table_def entry_name_def entry_funcs_def)
    then have f: "entry_funcs ?x = Functions (const_warp ''square_to_von_mises_fisher'')
                       (const_warp ''square_to_von_mises_fisher_pdf'')"
      using len by simp
    have "map entry_settings (DISTRIBUTIONS module_512) ! 10 = 10"
      unfolding module_512_def import_settings by simp
    then have a: "entry_settings ?x = 10"
      using len by simp
    show ?thesis
      unfolding module_512_def [symmetric] n f a
      unfolding module_512_def import_direct by simp
  qed
  then have mem: "?x \<in> set (filter (\<lambda>x. is_functions (entry_funcs x))
                              (take 33 (DISTRIBUTIONS module_512)))"
  proof -
    have "?x \<in> set (take 33 (DISTRIBUTIONS module_512))"
      using len by (simp add: in_set_conv_nth) (rule exI [of _ 10], simp)
    moreover have "is_functions (entry_funcs ?x)"
    proof -
      have "map (\<lambda>x. is_functions (entry_funcs x)) (DISTRIBUTIONS module_512) ! 10"
        unfolding module_512_def
        by (simp add: build_simps DISTRIBUTIONS_table_def entry_funcs_def)
      then show ?thesis using len by simp
    qed
    ultimately show ?thesis by simp
  qed
  have c: "warp_conforms const_warp \<or>
         entry_name ?x \<in> {''Uniform square'', ''Uniform cone'', ''Beckmann distribution'',
                           ''Rough fiber distribution''}"
    using warp_conforms_const by blast
  from direct_entries_arity [of ?x const_warp
      "Functions (sample_functor0 const_distr) (pdf_functor0 const_distr)"
      "Functions (sample_functor2 const_distr) (pdf_functor2 const_distr)",
      folded module_512_def, OF mem c]
  show ?thesis
    using warp_conforms_const mem n by blast
qed

subsection \<open>Sharing of settings\<close>

lemma lookup_update:
  "lookup (h[a := ob]) b = (if b = a \<and> a < length h then Some ob else lookup h b)"
  by (simp add: lookup_def)

lemma dict_items_Some: "dict_items h a = Some kvs \<longleftrightarrow> lookup h a = Some (DictObj kvs)"
  by (auto simp: dict_items_def split: option.splits obj.splits)

lemma read_list_Some: "read_list h l = Some ps \<longleftrightarrow> lookup h l = Some (ListObj ps)"
  by (auto simp: read_list_def split: option.splits obj.splits)

lemma lookup_Some_length: "lookup h a = Some ob \<Longrightarrow> a < length h"
  by (simp add: lookup_def split: if_splits)

text \<open>Writing a dictionary at \<open>a\<close> changes nothing that is read through another address.\<close>

lemma view_setitem_other:
  assumes "dict_items h a = Some kvs" and "b \<noteq> a"
  shows "settings_view (h[a := DictObj kvs']) b = settings_view h b"
proof -
  let ?h = "h[a := DictObj kvs']"
  from assms(1) have la: "lookup h a = Some (DictObj kvs)"
    by (simp add: dict_items_Some)
  then have len: "a < length h"
    by (rule lookup_Some_length)
  have d: "dict_items ?h b = dict_items h b"
    using assms(2) by (simp add: dict_items_def lookup_update)
  have "read_list ?h l = read_list h l" for l
    using la len by (simp add: read_list_def lookup_update)
  then have "deref ?h v = deref h v" for v
    by (simp add: deref_def split: val.splits)
  with d show ?thesis
    by (simp add: settings_view_def)
qed

text \<open>
  Writing a list at \<open>l\<close> changes nothing that is read through a dictionary that does not
  refer to \<open>l\<close>.
\<close>

lemma ref_in_refs:
  "dict_items h b = Some kvs \<Longrightarrow> kv \<in> set kvs \<Longrightarrow> snd kv = Ref l \<Longrightarrow> l \<in> set (refs h b)"
  by (force simp: refs_def)

lemma view_append_other:
  assumes "read_list h l = Some ps" and "l \<notin> set (refs h b)"
  shows "settings_view (h[l := ListObj ps']) b = settings_view h b"
proof -
  let ?h = "h[l := ListObj ps']"
  from assms(1) have ll: "lookup h l = Some (ListObj ps)"
    by (simp add: read_list_Some)
  then have len: "l < length h"
    by (rule lookup_Some_length)
  have d: "dict_items ?h b = dict_items h b"
    using ll len by (simp add: dict_items_def lookup_update)
  show ?thesis
  proof (cases "dict_items h b")
    case None
    with d show ?thesis by (simp add: settings_view_def)
  next
    case (Some kvs)
    have "deref ?h (snd kv) = deref h (snd kv)" if "kv \<in> set kvs" for kv
    proof (cases "snd kv")
      case (IntV n)
      then show ?thesis by (simp add: deref_def)
    next
      case (Ref l')
      with Some that have "l' \<in> set (refs h b)"
        using ref_in_refs [of h b kvs kv l'] by blast
      with assms(2) have "l' \<noteq> l" by blast
      with Ref show ?thesis
        by (simp add: deref_def read_list_def lookup_update)
    qed
    with Some d show ?thesis
      by (simp add: settings_view_def)
  qed
qed

lemma distinct_filter_nth:
  assumes "distinct (filter P xs)" and "i < length xs" and "j < length xs" and "i \<noteq> j"
    and "P (xs ! i)"
  shows "xs ! i \<noteq> xs ! j"
  using assms
proof (induction xs arbitrary: i j)
  case Nil
  then show ?case by simp
next
  case (Cons x xs)
  show ?case
  proof (cases i)
    case 0
    with Cons.prems obtain j' where j: "j = Suc j'" "j' < length xs"
      by (cases j) auto
    from Cons.prems 0 have "P x" "x \<notin> set (filter P xs)"
      by auto
    then have "x \<noteq> xs ! j'"
      using j(2) by (auto simp: in_set_conv_nth)
    with 0 j show ?thesis by simp
  next
    case (Suc i')
    note i = Suc
    show ?thesis
    proof (cases j)
      case 0
      from Cons.prems i have px: "P (xs ! i')" "i' < length xs"
        by auto
      show ?thesis
      proof (cases "P x")
        case True
        with Cons.prems have "x \<notin> set (filter P xs)"
          by auto
        with px have "xs ! i' \<noteq> x"
          by (auto simp: in_set_conv_nth)
        with 0 i show ?thesis by simp
      next
        case False
        with px have "xs ! i' \<noteq> x" by auto
        with 0 i show ?thesis by simp
      qed
    next
      case (Suc j')
      from Cons.prems have "distinct (filter P xs)"
        by (auto split: if_splits)
      with Cons.IH [of i' j'] Cons.prems i Suc show ?thesis
        by auto
    qed
  qed
qed

lemma map_eq_nth:
  "map f xs = map g ys \<Longrightarrow> i < length xs \<Longrightarrow> f (xs ! i) = g (ys ! i)"
  by (metis length_map nth_map)

lemma import_parameter_refs:
  "map (\<lambda>a. (read_key (heap (module_extend (module_base w) f0 f2)) a ''parameters'',
              refs (heap (module_extend (module_base w) f0 f2)) a))
       [1, 4, 1, 1, 1, 1, 1, 1, 6, 8, 10, 12, 13, 14, 16, 1, 1, 18, 20, 1, 1, 22, 24,
        3, 3, 3, 3, 26, 28, 3, 3, 3, 3, 1, 30] =
   map (\<lambda>l. (Some (Ref l), [l]))
       [0, 0, 0, 0, 0, 0, 0, 0, 5, 7, 9, 11, 0, 0, 15, 0, 0, 17, 19, 0, 0, 21, 23,
        2, 2, 2, 2, 25, 27, 2, 2, 2, 2, 0, 29]"
  unfolding import_heap by (simp add: read_simps refs_def)

lemma import_parameter_lists:
  "list_all (\<lambda>l. read_list (heap (module_extend (module_base w) f0 f2)) l \<noteq> None)
       [0, 0, 0, 0, 0, 0, 0, 0, 5, 7, 9, 11, 0, 0, 15, 0, 0, 17, 19, 0, 0, 21, 23,
        2, 2, 2, 2, 25, 27, 2, 2, 2, 2, 0, 29]"
  unfolding import_heap by (simp add: read_simps)

lemma import_template_refs:
  "read_key (heap (module_extend (module_base w) f0 f2)) 1 ''parameters'' = Some (Ref 0)"
  "read_key (heap (module_extend (module_base w) f0 f2)) 3 ''parameters'' = Some (Ref 2)"
  "refs (heap (module_extend (module_base w) f0 f2)) 1 = [0]"
  "refs (heap (module_extend (module_base w) f0 f2)) 3 = [2]"
  unfolding import_heap by (simp_all add: read_simps refs_def)

lemma import_keys:
  "list_all (\<lambda>a. map_option (map fst) (settings_view (heap (module_extend (module_base w) f0 f2)) a) =
                   Some [''sample_dim'', ''ires'', ''res'', ''parameters''])
       [1, 4, 1, 1, 1, 1, 1, 1, 6, 8, 10, 12, 13, 14, 16, 1, 1, 18, 20, 1, 1, 22, 24,
        3, 3, 3, 3, 26, 28, 3, 3, 3, 3, 1, 30]"
  unfolding import_heap by (simp add: read_simps settings_view_def)

text \<open>
  C1, as the code has it: the settings of every entry are a dictionary with the four keys
  of the templates. An entry built with \<open>dict(...)\<close> has a dictionary of its own: an
  assignment \<open>settings[k] = v\<close> through it is not observable through the settings of
  any other entry nor through a template. An entry that passes \<open>parameters=[...]\<close> has a
  list of its own: an \<open>append\<close> to it is not observable through the settings of any other
  entry nor through a template. Nothing is said of the other entries: they hold a
  template itself, or a copy of it that refers to the template's list.
\<close>

theorem settings_isolation:
  assumes "load_module e = Inr m"
    and "i < length (DISTRIBUTIONS m)" and "j < length (DISTRIBUTIONS m)" and "i \<noteq> j"
  shows "map_option (map fst) (settings_view (heap m) (entry_settings (DISTRIBUTIONS m ! i))) =
           Some [''sample_dim'', ''ires'', ''res'', ''parameters''] \<and>
         (own_settings m (DISTRIBUTIONS m ! i) \<longrightarrow>
            view_after (heap m) (entry_settings (DISTRIBUTIONS m ! i)) (SetItem k v)
                (entry_settings (DISTRIBUTIONS m ! j)) =
              Inr (settings_view (heap m) (entry_settings (DISTRIBUTIONS m ! j))) \<and>
            view_after (heap m) (entry_settings (DISTRIBUTIONS m ! i)) (SetItem k v)
                (globals m t) =
              Inr (settings_view (heap m) (globals m t))) \<and>
         (own_parameters m (DISTRIBUTIONS m ! i) \<longrightarrow>
            view_after (heap m) (entry_settings (DISTRIBUTIONS m ! i)) (AppendParameter p)
                (entry_settings (DISTRIBUTIONS m ! j)) =
              Inr (settings_view (heap m) (entry_settings (DISTRIBUTIONS m ! j))) \<and>
            view_after (heap m) (entry_settings (DISTRIBUTIONS m ! i)) (AppendParameter p)
                (globals m t) =
              Inr (settings_view (heap m) (globals m t)))"
proof -
  obtain f0 f2 where m: "m = module_extend (module_base (warp e)) f0 f2"
    using load_module_Inr [OF assms(1)] by blast
  let ?H = "heap m"
  let ?as = "[1, 4, 1, 1, 1, 1, 1, 1, 6, 8, 10, 12, 13, 14, 16, 1, 1, 18, 20, 1, 1, 22, 24,
              3, 3, 3, 3, 26, 28, 3, 3, 3, 3, 1, 30] :: nat list"
  let ?ls = "[0, 0, 0, 0, 0, 0, 0, 0, 5, 7, 9, 11, 0, 0, 15, 0, 0, 17, 19, 0, 0, 21, 23,
              2, 2, 2, 2, 25, 27, 2, 2, 2, 2, 0, 29] :: nat list"
  have A: "map entry_settings (DISTRIBUTIONS m) = ?as"
    unfolding m by (rule import_settings)
  have len: "length (DISTRIBUTIONS m) = 35"
    unfolding m by (rule import_length)
  have la: "length ?as = 35" by simp
  have ll: "length ?ls = 35" by simp
  from assms(2,3) len have i: "i < 35" and j: "j < 35" by simp_all
  have ai: "entry_settings (DISTRIBUTIONS m ! i) = ?as ! i"
    using A assms(2) by (metis nth_map)
  have aj: "entry_settings (DISTRIBUTIONS m ! j) = ?as ! j"
    using A assms(3) by (metis nth_map)
  have g: "globals m DEFAULT_SETTINGS = 1" "globals m DEFAULT_SETTINGS_3 = 3"
    unfolding m by (rule import_globals)+
  have gt: "globals m t = 1 \<or> globals m t = 3"
    using g by (cases t) simp_all
  have R: "map (\<lambda>a. (read_key ?H a ''parameters'', refs ?H a)) ?as =
           map (\<lambda>l. (Some (Ref l), [l])) ?ls"
    unfolding m by (rule import_parameter_refs)
  have ri: "read_key ?H (?as ! i) ''parameters'' = Some (Ref (?ls ! i))"
    "refs ?H (?as ! i) = [?ls ! i]"
    using map_eq_nth [OF R, of i] i la by simp_all
  have rj: "refs ?H (?as ! j) = [?ls ! j]"
    using map_eq_nth [OF R, of j] j la by simp
  have T: "read_key ?H 1 ''parameters'' = Some (Ref 0)"
    "read_key ?H 3 ''parameters'' = Some (Ref 2)"
    "refs ?H 1 = [0]" "refs ?H 3 = [2]"
    unfolding m by (rule import_template_refs)+
  have K: "list_all (\<lambda>a. map_option (map fst) (settings_view ?H a) =
                   Some [''sample_dim'', ''ires'', ''res'', ''parameters'']) ?as"
    unfolding m by (rule import_keys)
  have keys: "map_option (map fst) (settings_view ?H (?as ! i)) =
                Some [''sample_dim'', ''ires'', ''res'', ''parameters'']"
    using K i la unfolding list_all_length by metis
  obtain kvs where kvs: "dict_items ?H (?as ! i) = Some kvs"
    using ri(1) by (auto simp: read_key_def split: option.splits)
  have set_ok: "view_after ?H (?as ! i) (SetItem k v) b = Inr (settings_view ?H b)"
    if "b \<noteq> ?as ! i" for b
    using kvs that by (simp add: view_after_def view_setitem_other)
  have part1: "view_after ?H (?as ! i) (SetItem k v) (?as ! j) = Inr (settings_view ?H (?as ! j)) \<and>
      view_after ?H (?as ! i) (SetItem k v) (globals m t) = Inr (settings_view ?H (globals m t))"
    if own: "own_settings m (DISTRIBUTIONS m ! i)"
  proof -
    from own ai g have P: "?as ! i \<noteq> 1 \<and> ?as ! i \<noteq> 3"
      by (simp add: own_settings_def)
    have "distinct (filter (\<lambda>a. a \<noteq> 1 \<and> a \<noteq> 3) ?as)"
      by simp
    from distinct_filter_nth [OF this, of i j] i j assms(4) P la
    have "?as ! i \<noteq> ?as ! j"
      by metis
    moreover from P gt have "globals m t \<noteq> ?as ! i"
      by metis
    ultimately show ?thesis
      using set_ok by metis
  qed
  have part2: "view_after ?H (?as ! i) (AppendParameter p) (?as ! j) =
        Inr (settings_view ?H (?as ! j)) \<and>
      view_after ?H (?as ! i) (AppendParameter p) (globals m t) =
        Inr (settings_view ?H (globals m t))"
    if own: "own_parameters m (DISTRIBUTIONS m ! i)"
  proof -
    from own have Q: "?ls ! i \<noteq> 0 \<and> ?ls ! i \<noteq> 2"
      unfolding own_parameters_def ai g ri T by simp
    have "distinct (filter (\<lambda>l. l \<noteq> 0 \<and> l \<noteq> 2) ?ls)"
      by simp
    from distinct_filter_nth [OF this, of i j] i j assms(4) Q ll
    have ne: "?ls ! i \<noteq> ?ls ! j"
      by metis
    have "list_all (\<lambda>l. read_list ?H l \<noteq> None) ?ls"
      unfolding m by (rule import_parameter_lists)
    then have "read_list ?H (?ls ! i) \<noteq> None"
      using i ll unfolding list_all_length by metis
    then obtain ps where ps: "read_list ?H (?ls ! i) = Some ps"
      by blast
    have app: "view_after ?H (?as ! i) (AppendParameter p) b = Inr (settings_view ?H b)"
      if "?ls ! i \<notin> set (refs ?H b)" for b
      using ps ri(1) that by (simp add: view_after_def view_append_other)
    have "?ls ! i \<notin> set (refs ?H (?as ! j))"
      using ne rj by simp
    moreover have "?ls ! i \<notin> set (refs ?H (globals m t))"
      using gt Q T by auto
    ultimately show ?thesis
      using app by blast
  qed
  show ?thesis
    unfolding ai aj using keys part1 part2 unfolding ai aj by blast
qed

lemma nth_via_map: "map f xs = ys \<Longrightarrow> k < length ys \<Longrightarrow> f (xs ! k) = ys ! k"
  by (metis length_map nth_map)

lemma module_512_names:
  "entry_name (DISTRIBUTIONS module_512 ! 0) = ''Uniform square''"
  "entry_name (DISTRIBUTIONS module_512 ! 1) = ''Uniform triangle''"
  "entry_name (DISTRIBUTIONS module_512 ! 2) = ''Tent function''"
  "entry_name (DISTRIBUTIONS module_512 ! 8) = ''Uniform cone''"
  using nth_via_map [OF import_names, of 0] nth_via_map [OF import_names, of 1]
    nth_via_map [OF import_names, of 2] nth_via_map [OF import_names, of 8]
  by (simp_all add: module_512_def)

lemma module_512_settings:
  "entry_settings (DISTRIBUTIONS module_512 ! 0) = 1"
  "entry_settings (DISTRIBUTIONS module_512 ! 1) = 4"
  "entry_settings (DISTRIBUTIONS module_512 ! 2) = 1"
  "entry_settings (DISTRIBUTIONS module_512 ! 8) = 6"
  using nth_via_map [OF import_settings, of 0] nth_via_map [OF import_settings, of 1]
    nth_via_map [OF import_settings, of 2] nth_via_map [OF import_settings, of 8]
  by (simp_all add: module_512_def)

lemmas module_512_nth = module_512_names module_512_settings

theorem settings_isolation_witness:
  "load_module env_all_512 = Inr module_512 \<and>
   1 < length (DISTRIBUTIONS module_512) \<and> 0 < length (DISTRIBUTIONS module_512) \<and>
   8 < length (DISTRIBUTIONS module_512) \<and>
   entry_name (DISTRIBUTIONS module_512 ! 1) = ''Uniform triangle'' \<and>
   own_settings module_512 (DISTRIBUTIONS module_512 ! 1) \<and>
   view_after (heap module_512) (entry_settings (DISTRIBUTIONS module_512 ! 1))
       (SetItem ''res'' (IntV 7)) (entry_settings (DISTRIBUTIONS module_512 ! 0)) =
     Inr (settings_view (heap module_512) (entry_settings (DISTRIBUTIONS module_512 ! 0))) \<and>
   entry_name (DISTRIBUTIONS module_512 ! 8) = ''Uniform cone'' \<and>
   own_parameters module_512 (DISTRIBUTIONS module_512 ! 8) \<and>
   view_after (heap module_512) (entry_settings (DISTRIBUTIONS module_512 ! 8))
       (AppendParameter (''extra'', [0, 1, 0])) (entry_settings (DISTRIBUTIONS module_512 ! 0)) =
     Inr (settings_view (heap module_512) (entry_settings (DISTRIBUTIONS module_512 ! 0)))"
proof -
  have len: "length (DISTRIBUTIONS module_512) = 35"
    unfolding module_512_def by (rule import_length)
  have l: "1 < length (DISTRIBUTIONS module_512)" "0 < length (DISTRIBUTIONS module_512)"
    "8 < length (DISTRIBUTIONS module_512)"
    using len by simp_all
  have g: "globals module_512 DEFAULT_SETTINGS = 1" "globals module_512 DEFAULT_SETTINGS_3 = 3"
    unfolding module_512_def by (rule import_globals)+
  have os: "own_settings module_512 (DISTRIBUTIONS module_512 ! 1)"
    unfolding own_settings_def module_512_nth g by simp
  have "read_key (heap module_512) 6 ''parameters'' = Some (Ref 5)"
    unfolding module_512_def import_heap by (simp add: read_simps)
  moreover have "read_key (heap module_512) 1 ''parameters'' = Some (Ref 0)"
    "read_key (heap module_512) 3 ''parameters'' = Some (Ref 2)"
    unfolding module_512_def by (rule import_template_refs)+
  ultimately have op: "own_parameters module_512 (DISTRIBUTIONS module_512 ! 8)"
    unfolding own_parameters_def module_512_nth g by simp
  have n10: "(1::nat) \<noteq> 0" and n80: "(8::nat) \<noteq> 0"
    by simp_all
  note t1 = settings_isolation [OF load_module_512 l(1) l(2) n10,
      where k = "''res''" and v = "IntV 7"]
  note t8 = settings_isolation [OF load_module_512 l(3) l(2) n80,
      where p = "(''extra'', [0, 1, 0])"]
  from t1 os have 1: "view_after (heap module_512) (entry_settings (DISTRIBUTIONS module_512 ! 1))
       (SetItem ''res'' (IntV 7)) (entry_settings (DISTRIBUTIONS module_512 ! 0)) =
     Inr (settings_view (heap module_512) (entry_settings (DISTRIBUTIONS module_512 ! 0)))"
    by blast
  from t8 op have 8: "view_after (heap module_512) (entry_settings (DISTRIBUTIONS module_512 ! 8))
       (AppendParameter (''extra'', [0, 1, 0])) (entry_settings (DISTRIBUTIONS module_512 ! 0)) =
     Inr (settings_view (heap module_512) (entry_settings (DISTRIBUTIONS module_512 ! 0)))"
    by blast
  show ?thesis
    using load_module_512 l os op 1 8 module_512_nth(2,4) by blast
qed

text \<open>
  C1 as stated fails. \<open>Uniform square\<close> and \<open>Tent function\<close> both hold the dictionary
  \<open>DEFAULT_SETTINGS\<close> itself: \<open>res\<close> reassigned through the first is read through the
  second. \<open>Uniform triangle\<close> holds a copy made by \<open>dict(DEFAULT_SETTINGS, res=100)\<close>
  that refers to the list of the template: a parameter appended through it is read through
  \<open>DEFAULT_SETTINGS\<close>.
\<close>

theorem shared_settings_observed:
  "entry_name (DISTRIBUTIONS module_512 ! 0) = ''Uniform square'' \<and>
   entry_name (DISTRIBUTIONS module_512 ! 2) = ''Tent function'' \<and>
   view_after (heap module_512) (entry_settings (DISTRIBUTIONS module_512 ! 0))
       (SetItem ''res'' (IntV 7)) (entry_settings (DISTRIBUTIONS module_512 ! 2)) \<noteq>
     Inr (settings_view (heap module_512) (entry_settings (DISTRIBUTIONS module_512 ! 2))) \<and>
   entry_name (DISTRIBUTIONS module_512 ! 1) = ''Uniform triangle'' \<and>
   view_after (heap module_512) (entry_settings (DISTRIBUTIONS module_512 ! 1))
       (AppendParameter (''extra'', [0, 1, 0])) (globals module_512 DEFAULT_SETTINGS) \<noteq>
     Inr (settings_view (heap module_512) (globals module_512 DEFAULT_SETTINGS))"
proof -
  have g: "globals module_512 DEFAULT_SETTINGS = 1"
    unfolding module_512_def by (rule import_globals)
  have 1: "view_after (heap module_512) 1 (SetItem ''res'' (IntV 7)) 1 \<noteq>
             Inr (settings_view (heap module_512) 1)"
    unfolding module_512_def import_heap
    by (simp add: view_after_def read_simps settings_view_def deref_def)
  have 2: "view_after (heap module_512) 4 (AppendParameter (''extra'', [0, 1, 0])) 1 \<noteq>
             Inr (settings_view (heap module_512) 1)"
    unfolding module_512_def import_heap
    by (simp add: view_after_def read_simps settings_view_def deref_def)
  show ?thesis
    unfolding module_512_nth g using 1 2 by simp
qed

end
